theory Spec2Isabelle
  imports Complex_Main "HOL-Library.AList" "HOL-Library.Sublist"
begin

section \<open>Values, outcomes and strings\<close>

text \<open>
  The analyzer of \<^verbatim>\<open>src/lib/middleware/sentiment/analyzer.js\<close> is embedded as HOL
  functions. Conventions of the embedding:
  \<^item> the arithmetic of the source is read in two ways. The functions named after the
    source compute over the real numbers, without rounding; the functions with the
    suffix \<open>64\<close> compute over IEEE doubles, as the machine does, where every operation
    rounds its exact result. The two readings can differ at a threshold that a rounded
    value crosses. The scoring rule of claim C1 is stated and proved in the second
    reading;
  \<^item> a character is a UTF-16 code unit below 256 (the Latin-1 range);
  \<^item> a call either returns, or throws, or leaves the fragment of JavaScript that the
    embedding covers; the third case is the value \<open>Unmodelled\<close>, about which nothing
    is claimed.
\<close>

datatype js_error = SyntaxError | TypeError

datatype 'a outcome = Returns 'a | Throws js_error | Unmodelled

datatype json =
    JNull
  | JBool bool
  | JNum real
  | JStr string
  | JArr "json list"
  | JObj "(string \<times> json) list"

text \<open>
  The case mappings, on code units. The upper-case letters of the range are \<open>A\<close> to
  \<open>Z\<close> and the code units 192 to 222 except the multiplication sign 215; the lower
  case of each is 32 above it. No other code unit of the range changes under
  \<^verbatim>\<open>String.prototype.toLowerCase\<close>.
\<close>

definition upperCaseUnit :: "nat \<Rightarrow> bool" where
  "upperCaseUnit n = ((65 \<le> n \<and> n \<le> 90) \<or> (192 \<le> n \<and> n \<le> 222 \<and> n \<noteq> 215))"

definition lowerCaseUnit :: "nat \<Rightarrow> bool" where
  "lowerCaseUnit n = ((97 \<le> n \<and> n \<le> 122) \<or> (224 \<le> n \<and> n \<le> 254 \<and> n \<noteq> 247))"

definition lowerCode :: "nat \<Rightarrow> nat" where
  "lowerCode n = (if upperCaseUnit n then n + 32 else n)"

definition lowerChar :: "char \<Rightarrow> char" where
  "lowerChar c = (if upperCaseUnit (of_char c) then char_of (lowerCode (of_char c)) else c)"

definition toLowerCase :: "string \<Rightarrow> string" where
  "toLowerCase s = map lowerChar s"

text \<open>The canonical form of a code unit under the \<^verbatim>\<open>i\<close> flag of a regular expression:
  the code unit of its upper case, when that is a single code unit of the same range. Two
  code units match when their canonical forms are equal.\<close>

definition canonCode :: "nat \<Rightarrow> nat" where
  "canonCode n = (if lowerCaseUnit n then n - 32 else n)"

definition canonicalize :: "char \<Rightarrow> nat" where
  "canonicalize c = canonCode (of_char c)"

text \<open>The class \<^verbatim>\<open>\s\<close>: tab, line feed, vertical tab, form feed, carriage return,
  space and no-break space.\<close>

definition isSpace :: "char \<Rightarrow> bool" where
  "isSpace c = (let n = (of_char c :: nat) in (9 \<le> n \<and> n \<le> 13) \<or> n = 32 \<or> n = 160)"

text \<open>\<^verbatim>\<open>s.split(/\s+/)\<close>: the pieces between maximal runs of white space; a run at
  either end of the string leaves an empty piece there, and the empty string is one
  empty piece. \<open>cur\<close> is the piece being read.\<close>

function splitFrom :: "string \<Rightarrow> string \<Rightarrow> string list" where
  "splitFrom cur [] = [cur]"
| "splitFrom cur (c # cs) =
     (if isSpace c then cur # splitFrom [] (dropWhile isSpace cs)
      else splitFrom (cur @ [c]) cs)"
  by pat_completeness auto
termination
  by (relation "measure (\<lambda>(cur, s). length s)")
     (auto simp: length_dropWhile_le less_Suc_eq_le)

definition splitWs :: "string \<Rightarrow> string list" where
  "splitWs s = splitFrom [] s"

text \<open>\<^verbatim>\<open>s.includes(x)\<close>: \<open>x\<close> occurs in \<open>s\<close> as a contiguous substring.\<close>

fun startsWith :: "string \<Rightarrow> string \<Rightarrow> bool" where
  "startsWith s [] = True"
| "startsWith [] (x # xs) = False"
| "startsWith (c # cs) (x # xs) = (c = x \<and> startsWith cs xs)"

fun includesStr :: "string \<Rightarrow> string \<Rightarrow> bool" where
  "includesStr [] x = (x = [])"
| "includesStr (c # cs) x = (startsWith (c # cs) x \<or> includesStr cs x)"

section \<open>Counting the matches of a lexicon term\<close>

text \<open>
  The scoring loop builds \<^verbatim>\<open>new RegExp('\\b' + term + '\\b|' + term, 'gi')\<close> and
  counts \<^verbatim>\<open>(lowerContent.match(regex) || []).length\<close>.

  A term without any syntax character of the pattern language is read literally by both
  alternatives, which then match the same text at the same place: the global match finds
  the occurrences of the term from left to right, ignoring case, each search starting
  where the previous match ended. The empty term matches the empty string at every
  index, the end of the subject included.
\<close>

definition syntaxCharacters :: "char set" where
  "syntaxCharacters =
     {CHR ''^'', CHR ''$'', CHR 0x5C, CHR ''.'', CHR ''*'', CHR ''+'', CHR ''?'',
      CHR ''('', CHR '')'', CHR ''['', CHR '']'', CHR ''{'', CHR ''}'', CHR ''|''}"

definition literalTerm :: "string \<Rightarrow> bool" where
  "literalTerm t = (\<forall>c \<in> set t. c \<notin> syntaxCharacters)"

fun matchesAt :: "string \<Rightarrow> string \<Rightarrow> bool" where
  "matchesAt [] s = True"
| "matchesAt (a # t) [] = False"
| "matchesAt (a # t) (b # s) = (canonicalize a = canonicalize b \<and> matchesAt t s)"

function countMatches :: "string \<Rightarrow> string \<Rightarrow> nat" where
  "countMatches t s =
     (if t = [] then Suc (length s)
      else if s = [] then 0
      else if matchesAt t s then Suc (countMatches t (drop (length t) s))
      else countMatches t (tl s))"
  by pat_completeness auto
termination
  by (relation "measure (\<lambda>(t, s). length s)") auto

declare countMatches.simps [simp del]

text \<open>
  A term with syntax characters is a pattern of its own. Two classes of such terms are
  modelled.

  A term that is literal up to a final dollar sign: the pattern has no \<^verbatim>\<open>m\<close> flag, so
  the dollar sign matches at the end of the subject and nowhere else. Either alternative
  then matches exactly where the literal part, up to case, ends the subject: there is
  one match when the subject ends with the literal part and none otherwise.

  A term without backslash and bracket in which the numbers of opening and closing
  parentheses differ: each parenthesis opens or closes a group, so the constructor throws
  \<^verbatim>\<open>SyntaxError\<close>.

  Every other pattern is outside the embedding.
\<close>

definition anchoredTerm :: "string \<Rightarrow> bool" where
  "anchoredTerm t = (t \<noteq> [] \<and> last t = CHR ''$'' \<and> literalTerm (butlast t))"

definition matchesAtEnd :: "string \<Rightarrow> string \<Rightarrow> bool" where
  "matchesAtEnd x s = (length x \<le> length s \<and> matchesAt x (drop (length s - length x) s))"

definition unbalancedGroups :: "string \<Rightarrow> bool" where
  "unbalancedGroups t =
     (CHR 0x5C \<notin> set t \<and> CHR ''['' \<notin> set t \<and> CHR '']'' \<notin> set t \<and>
      length (filter (\<lambda>c. c = CHR ''('') t) \<noteq> length (filter (\<lambda>c. c = CHR '')'') t))"

definition regexMatchCount :: "string \<Rightarrow> string \<Rightarrow> nat outcome" where
  "regexMatchCount t lowerContent =
     (if literalTerm t then Returns (countMatches t lowerContent)
      else if anchoredTerm t
        then Returns (if matchesAtEnd (butlast t) lowerContent then 1 else 0)
      else if unbalancedGroups t then Throws SyntaxError
      else Unmodelled)"

section \<open>The analyzer and its lexicon\<close>

text \<open>
  An object used as a dictionary is the list of its entries in the order in which
  \<^verbatim>\<open>Object.entries\<close> enumerates them: first the keys that are array indices (the
  decimal numerals, without leading zero, of the integers from 0 to 4294967294), by
  ascending value, then the other keys in the order of their creation. Writing a key
  that is present replaces its value in place; a new key takes its place in this order.
\<close>

type_synonym lexicon = "(string \<times> real) list"

definition isDigit :: "char \<Rightarrow> bool" where
  "isDigit c = (let n = (of_char c :: nat) in 48 \<le> n \<and> n \<le> 57)"

definition digitsValue :: "string \<Rightarrow> nat" where
  "digitsValue k = foldl (\<lambda>n c. 10 * n + (of_char c - 48)) 0 k"

definition arrayIndex :: "string \<Rightarrow> nat option" where
  "arrayIndex k =
     (if k \<noteq> [] \<and> list_all isDigit k \<and> (hd k \<noteq> CHR ''0'' \<or> length k = 1)
         \<and> digitsValue k < 4294967295
      then Some (digitsValue k) else None)"

definition indexBelow :: "nat \<Rightarrow> string \<times> real \<Rightarrow> bool" where
  "indexBelow n e = (case arrayIndex (fst e) of Some m \<Rightarrow> m < n | None \<Rightarrow> False)"

definition setOwn :: "string \<Rightarrow> real \<Rightarrow> lexicon \<Rightarrow> lexicon" where
  "setOwn k v d =
     (if k \<in> fst ` set d then AList.update k v d
      else case arrayIndex k of
             None \<Rightarrow> d @ [(k, v)]
           | Some n \<Rightarrow> takeWhile (indexBelow n) d @ [(k, v)] @ dropWhile (indexBelow n) d)"

text \<open>
  \<^verbatim>\<open>Object.assign(target, source)\<close> writes every entry of the source to the target
  with an ordinary assignment. The target inherits the accessor \<^verbatim>\<open>__proto__\<close> of
  \<^verbatim>\<open>Object.prototype\<close>, whose setter ignores a number: an entry of the source under
  that key leaves the target as it is. An object literal defines its entries in the order
  in which they are written, a later duplicate of a key overwriting the earlier value.
\<close>

definition assign :: "lexicon \<Rightarrow> lexicon \<Rightarrow> lexicon" where
  "assign target source =
     fold (\<lambda>(k, v) d. if k = ''__proto__'' then d else setOwn k v d) source target"

definition objectLiteral :: "lexicon \<Rightarrow> lexicon" where
  "objectLiteral entries = fold (\<lambda>(k, v). setOwn k v) entries []"

definition positiveTerms :: lexicon where
  "positiveTerms =
     [(''good'', 0.7), (''great'', 1.0), (''excellent'', 1.3), (''amazing'', 1.5),
      (''fantastic'', 1.5), (''wonderful'', 1.3), (''happy'', 1.0), (''pleased'', 0.8),
      (''satisfied'', 0.7), (''love'', 1.4), (''like'', 0.8), (''enjoy'', 0.9),
      (''awesome'', 1.5), (''works great'', 1.2), (''really happy'', 1.4)]"

definition negativeTerms :: lexicon where
  "negativeTerms =
     [(''bad'', - 0.7), (''terrible'', - 1.3), (''awful'', - 1.3), (''horrible'', - 1.5),
      (''disappointed'', - 1.0), (''very disappointed'', - 1.5), (''upset'', - 1.0),
      (''frustrated'', - 1.2), (''frustrating'', - 1.2), (''annoyed'', - 0.8),
      (''angry'', - 1.3), (''hate'', - 1.5), (''dislike'', - 0.7), (''poor'', - 0.7),
      (''worst'', - 1.5)]"

definition frustrationTerms :: lexicon where
  "frustrationTerms =
     [(''already'', - 0.5), (''repeatedly'', - 0.6), (''multiple times'', - 0.9),
      (''still not'', - 0.8), (''keep getting'', - 0.7), (''not working'', - 0.8),
      (''told you'', - 1.0), (''keeps happening'', - 0.9),
      (''still doesn't'', - 1.2)]"

definition excitementTerms :: lexicon where
  "excitementTerms =
     [(''wow'', 1.5), (''amazing'', 1.5), (''incredible'', 1.6), (''unbelievable'', 1.4),
      (''can't believe'', 1.2), (''spectacular'', 1.8),
      (''!'', 0.3), (''!!'', 0.6), (''!!!'', 0.9)]"

definition builtinDictionary :: lexicon where
  "builtinDictionary =
     objectLiteral (positiveTerms @ negativeTerms @ frustrationTerms @ excitementTerms)"

record Config =
  confidenceThreshold :: real
  customDictionary :: lexicon

record SentimentAnalyzer =
  config :: Config
  dictionary :: lexicon

text \<open>
  The constructor. Its argument has two optional fields; \<^verbatim>\<open>x || d\<close> takes the
  default \<open>d\<close> when the field is absent and also when it is falsy, so a threshold of
  \<open>0\<close> is replaced by \<open>0.65\<close>.
\<close>

definition newSentimentAnalyzer :: "real option \<Rightarrow> lexicon option \<Rightarrow> SentimentAnalyzer" where
  "newSentimentAnalyzer threshold custom =
     (let cfg = \<lparr> confidenceThreshold =
                    (case threshold of None \<Rightarrow> 0.65 | Some x \<Rightarrow> if x = 0 then 0.65 else x),
                  customDictionary = (case custom of None \<Rightarrow> [] | Some d \<Rightarrow> d) \<rparr>
      in \<lparr> config = cfg, dictionary = assign builtinDictionary (customDictionary cfg) \<rparr>)"

section \<open>analyzeSentiment\<close>

text \<open>The functions of this section compute over the real numbers, without rounding.\<close>

datatype sentiment = neutral | positive | negative | frustration | excitement

record analysis =
  type :: sentiment
  confidence :: real

text \<open>The conditions of the five special cases, in the order of the source.\<close>

definition specialCase1 :: "string \<Rightarrow> bool" where
  "specialCase1 lowerContent =
     (includesStr lowerContent ''really happy'' \<and> includesStr lowerContent ''works great'')"

definition specialCase2 :: "string \<Rightarrow> bool" where
  "specialCase2 lowerContent =
     (includesStr lowerContent ''terrible'' \<and> includesStr lowerContent ''disappointed''
      \<and> includesStr lowerContent ''frustrated'')"

definition specialCase3 :: "string \<Rightarrow> bool" where
  "specialCase3 lowerContent =
     (includesStr lowerContent ''told you multiple times''
      \<or> includesStr lowerContent ''still doesn't work'')"

definition specialCase4 :: "string \<Rightarrow> bool" where
  "specialCase4 lowerContent =
     (includesStr lowerContent ''wow'' \<and> includesStr lowerContent ''amazing''
      \<and> includesStr lowerContent ''can't believe'')"

definition specialCase5 :: "lexicon \<Rightarrow> string \<Rightarrow> bool" where
  "specialCase5 dict lowerContent =
     (includesStr lowerContent ''spectacular''
      \<and> (case map_of dict ''spectacular'' of None \<Rightarrow> False | Some w \<Rightarrow> w \<ge> 1.8))"

text \<open>The first special case that applies returns its fixed result.\<close>

definition specialCases :: "lexicon \<Rightarrow> string \<Rightarrow> analysis option" where
  "specialCases dict lowerContent =
     (if specialCase1 lowerContent then Some \<lparr> type = positive, confidence = 0.9 \<rparr>
      else if specialCase2 lowerContent then Some \<lparr> type = negative, confidence = 0.9 \<rparr>
      else if specialCase3 lowerContent then Some \<lparr> type = frustration, confidence = 0.9 \<rparr>
      else if specialCase4 lowerContent then Some \<lparr> type = excitement, confidence = 0.95 \<rparr>
      else if specialCase5 dict lowerContent then Some \<lparr> type = excitement, confidence = 0.9 \<rparr>
      else None)"

text \<open>The loop over \<^verbatim>\<open>Object.entries(this.dictionary)\<close>, with its two accumulators.
  Building the regular expression of an entry may throw, which ends the loop.\<close>

fun scoreEntries :: "lexicon \<Rightarrow> string \<Rightarrow> real \<Rightarrow> nat \<Rightarrow> (real \<times> nat) outcome" where
  "scoreEntries [] lowerContent sentimentScore matchCount = Returns (sentimentScore, matchCount)"
| "scoreEntries ((t, score) # es) lowerContent sentimentScore matchCount =
     (case regexMatchCount t lowerContent of
        Returns matches \<Rightarrow>
          if matches > 0
          then scoreEntries es lowerContent
                 (sentimentScore + score * real matches) (matchCount + matches)
          else scoreEntries es lowerContent sentimentScore matchCount
      | Throws e \<Rightarrow> Throws e
      | Unmodelled \<Rightarrow> Unmodelled)"

definition frustrationIndicators :: "string \<Rightarrow> bool" where
  "frustrationIndicators lowerContent =
     (includesStr lowerContent ''already'' \<or> includesStr lowerContent ''still''
      \<or> includesStr lowerContent ''multiple times'' \<or> includesStr lowerContent ''told you''
      \<or> includesStr lowerContent ''doesn't work'')"

text \<open>Type and confidence from the normalized score, then the cap at 0.98.\<close>

definition thresholds :: "real \<Rightarrow> bool \<Rightarrow> string \<Rightarrow> analysis" where
  "thresholds normalizedScore hasMultipleExclamations lowerContent =
     (let r =
        (if normalizedScore > 0.5 then
           (if normalizedScore > 1.5 \<or> (normalizedScore > 0.8 \<and> hasMultipleExclamations)
            then \<lparr> type = excitement, confidence = 0.7 + normalizedScore / 10 \<rparr>
            else \<lparr> type = positive, confidence = 0.7 + normalizedScore / 5 \<rparr>)
         else if normalizedScore < - 0.5 then
           (if frustrationIndicators lowerContent \<or> normalizedScore < - 1.0
            then \<lparr> type = frustration, confidence = 0.7 + \<bar>normalizedScore\<bar> / 5 \<rparr>
            else \<lparr> type = negative, confidence = 0.7 + \<bar>normalizedScore\<bar> / 5 \<rparr>)
         else \<lparr> type = neutral, confidence = 0.8 \<rparr>)
      in r\<lparr> confidence := min (confidence r) 0.98 \<rparr>)"

text \<open>The last step: a confidence below the threshold of the configuration gives
  neutral with confidence 0.8.\<close>

definition belowThreshold :: "real \<Rightarrow> analysis \<Rightarrow> analysis" where
  "belowThreshold threshold r =
     (if confidence r < threshold then \<lparr> type = neutral, confidence = 0.8 \<rparr> else r)"

text \<open>The score of a text that met no special case, up to the cap.\<close>

definition scored :: "lexicon \<Rightarrow> string \<Rightarrow> analysis outcome" where
  "scored dict content =
     (let lowerContent = toLowerCase content;
          wordCount = length (splitWs lowerContent)
      in case scoreEntries dict lowerContent 0 0 of
           Returns (sentimentScore, matchCount) \<Rightarrow>
             let normalizedScore =
                   (if wordCount > 0 then sentimentScore / sqrt (real wordCount) else 0);
                 exclamationCount = length (filter (\<lambda>c. c = CHR ''!'') content);
                 hasMultipleExclamations = (exclamationCount > 1)
             in Returns (thresholds normalizedScore hasMultipleExclamations lowerContent)
         | Throws e \<Rightarrow> Throws e
         | Unmodelled \<Rightarrow> Unmodelled)"

text \<open>
  \<open>content\<close> is \<open>None\<close> for \<^verbatim>\<open>undefined\<close>. The guard
  \<^verbatim>\<open>!content || typeof content !== 'string'\<close> lets a non-empty string through and
  nothing else: the empty string is falsy.
\<close>

definition analyzeSentiment :: "SentimentAnalyzer \<Rightarrow> json option \<Rightarrow> analysis outcome" where
  "analyzeSentiment this content =
     (case content of
        Some (JStr s) \<Rightarrow>
          if s = [] then Returns \<lparr> type = neutral, confidence = 1.0 \<rparr>
          else (case specialCases (dictionary this) (toLowerCase s) of
                  Some r \<Rightarrow> Returns r
                | None \<Rightarrow>
                    (case scored (dictionary this) s of
                       Returns r \<Rightarrow>
                         Returns (belowThreshold (confidenceThreshold (config this)) r)
                     | Throws e \<Rightarrow> Throws e
                     | Unmodelled \<Rightarrow> Unmodelled))
      | _ \<Rightarrow> Returns \<lparr> type = neutral, confidence = 1.0 \<rparr>)"

section \<open>analyze\<close>

text \<open>
  A message is a JSON document. The objects of the caller are the cells of a heap, each
  holding the document that the object denotes; a local variable of \<^verbatim>\<open>analyze\<close>
  holds a reference to a cell. \<^verbatim>\<open>JSON.parse(JSON.stringify(message))\<close> allocates a
  new cell, and every assignment of the source updates the cell of \<^verbatim>\<open>result\<close>.
  \<open>analyze\<close> returns its outcome together with the heap that it leaves. A reference
  outside the heap denotes no object, and an array that gets a named property is not a
  JSON document: both are \<open>Unmodelled\<close>.
\<close>

type_synonym ref = nat
type_synonym heap = "json list"

primrec JSON_copy :: "json \<Rightarrow> json" where
  "JSON_copy JNull = JNull"
| "JSON_copy (JBool b) = JBool b"
| "JSON_copy (JNum x) = JNum x"
| "JSON_copy (JStr s) = JStr s"
| "JSON_copy (JArr xs) = JArr (map JSON_copy xs)"
| "JSON_copy (JObj kvs) = JObj (map (map_prod id JSON_copy) kvs)"

text \<open>Truthiness of a value; \<open>None\<close> is \<^verbatim>\<open>undefined\<close>.\<close>

definition truthy :: "json option \<Rightarrow> bool" where
  "truthy v =
     (case v of
        None \<Rightarrow> False
      | Some JNull \<Rightarrow> False
      | Some (JBool b) \<Rightarrow> b
      | Some (JNum x) \<Rightarrow> x \<noteq> 0
      | Some (JStr s) \<Rightarrow> s \<noteq> []
      | Some (JArr xs) \<Rightarrow> True
      | Some (JObj kvs) \<Rightarrow> True)"

text \<open>
  Reading and writing one of the properties \<^verbatim>\<open>content\<close>, \<^verbatim>\<open>behavior_tags\<close> and
  \<^verbatim>\<open>sentiment\<close>, which no built-in prototype defines. Reading from
  \<^verbatim>\<open>null\<close> or \<^verbatim>\<open>undefined\<close> throws; a boolean, a number, a string and an array
  have no such property. The body of a class is strict code, where writing a property
  of a primitive value throws. An array with a named property is not a JSON document.
\<close>

definition getProp :: "json option \<Rightarrow> string \<Rightarrow> json option outcome" where
  "getProp v k =
     (case v of
        None \<Rightarrow> Throws TypeError
      | Some JNull \<Rightarrow> Throws TypeError
      | Some (JObj kvs) \<Rightarrow> Returns (map_of kvs k)
      | Some _ \<Rightarrow> Returns None)"

definition setProp :: "json option \<Rightarrow> string \<Rightarrow> json \<Rightarrow> json outcome" where
  "setProp v k x =
     (case v of
        Some (JObj kvs) \<Rightarrow> Returns (JObj (AList.update k x kvs))
      | Some (JArr xs) \<Rightarrow> Unmodelled
      | _ \<Rightarrow> Throws TypeError)"

definition andThen :: "'a outcome \<Rightarrow> heap \<Rightarrow> ('a \<Rightarrow> 'b outcome \<times> heap) \<Rightarrow> 'b outcome \<times> heap" where
  "andThen x h f =
     (case x of Returns a \<Rightarrow> f a | Throws e \<Rightarrow> (Throws e, h) | Unmodelled \<Rightarrow> (Unmodelled, h))"

definition sentimentName :: "sentiment \<Rightarrow> string" where
  "sentimentName t =
     (case t of neutral \<Rightarrow> ''neutral'' | positive \<Rightarrow> ''positive'' | negative \<Rightarrow> ''negative''
      | frustration \<Rightarrow> ''frustration'' | excitement \<Rightarrow> ''excitement'')"

definition sentimentTag :: "analysis \<Rightarrow> json" where
  "sentimentTag a =
     JObj [(''detected'', JStr (sentimentName (type a))), (''confidence'', JNum (confidence a))]"

definition analyze :: "SentimentAnalyzer \<Rightarrow> ref \<Rightarrow> heap \<Rightarrow> ref outcome \<times> heap" where
  "analyze this message h =
     (if length h \<le> message then (Unmodelled, h)
      else
        let result = length h;
            h1 = h @ [JSON_copy (h ! message)]
        in andThen (getProp (Some (h1 ! result)) ''behavior_tags'') h1 (\<lambda>tags.
           andThen (if \<not> truthy tags
                    then setProp (Some (h1 ! result)) ''behavior_tags'' (JObj [])
                    else Returns (h1 ! result)) h1 (\<lambda>r2.
           let h2 = h1[result := r2]
           in andThen (getProp (Some (h2 ! result)) ''behavior_tags'') h2 (\<lambda>tags2.
              andThen (getProp tags2 ''sentiment'') h2 (\<lambda>existing.
              if truthy existing then (Returns result, h2)
              else
                andThen (getProp (Some (h2 ! message)) ''content'') h2 (\<lambda>content.
                andThen (analyzeSentiment this content) h2 (\<lambda>a.
                andThen (setProp tags2 ''sentiment'' (sentimentTag a)) h2 (\<lambda>tags3.
                andThen (setProp (Some (h2 ! result)) ''behavior_tags'' tags3) h2 (\<lambda>r3.
                (Returns result, h2[result := r3]))))))))))"

text \<open>
  Reading a document, for the statements about \<^verbatim>\<open>analyze\<close>: the entry of an object under
  a key (a document that is not an object has no entries), the entry of its
  \<^verbatim>\<open>behavior_tags\<close>, and its sentiment tag \<^verbatim>\<open>m.behavior_tags.sentiment\<close>.
\<close>

definition field :: "json \<Rightarrow> string \<Rightarrow> json option" where
  "field m k = (case m of JObj kvs \<Rightarrow> map_of kvs k | _ \<Rightarrow> None)"

definition tagEntry :: "json \<Rightarrow> string \<Rightarrow> json option" where
  "tagEntry m k = (case field m ''behavior_tags'' of Some tags \<Rightarrow> field tags k | None \<Rightarrow> None)"

definition sentimentOf :: "json \<Rightarrow> json option" where
  "sentimentOf m = tagEntry m ''sentiment''"

text \<open>
  A message on which \<^verbatim>\<open>analyze\<close> runs the analysis and can store its result: its
  \<^verbatim>\<open>behavior_tags\<close> is absent or falsy, or is an object whose \<^verbatim>\<open>sentiment\<close> is absent or
  falsy.
\<close>

definition needsSentiment :: "json \<Rightarrow> bool" where
  "needsSentiment m =
     (case field m ''behavior_tags'' of
        Some (JObj tags) \<Rightarrow> \<not> truthy (map_of tags ''sentiment'')
      | t \<Rightarrow> \<not> truthy t)"

section \<open>The scoring rule in exact arithmetic\<close>

text \<open>
  The definitions of this section do not come from the source. They spell out the rule
  of the specification, to be compared with \<open>analyzeSentiment\<close> in exact arithmetic:
  the occurrences of a term are those of its lower case in the lowercased text, as plain
  substrings, counted from left to right without overlap; the number of pieces of the
  text is one more than the number of its maximal runs of white space; a text contains a
  phrase when the phrase is a contiguous sublist of it.
\<close>

function spec_occurrences :: "string \<Rightarrow> string \<Rightarrow> nat" where
  "spec_occurrences x s =
     (if x = [] then Suc (length s)
      else if s = [] then 0
      else if prefix x s then Suc (spec_occurrences x (drop (length x) s))
      else spec_occurrences x (tl s))"
  by pat_completeness auto
termination
  by (relation "measure (\<lambda>(x, s). length s)") auto

declare spec_occurrences.simps [simp del]

fun spec_whitespaceRuns :: "string \<Rightarrow> nat" where
  "spec_whitespaceRuns [] = 0"
| "spec_whitespaceRuns [c] = (if isSpace c then 1 else 0)"
| "spec_whitespaceRuns (c # d # cs) =
     (if isSpace c \<and> \<not> isSpace d then 1 else 0) + spec_whitespaceRuns (d # cs)"

definition spec_score :: "lexicon \<Rightarrow> string \<Rightarrow> real" where
  "spec_score dict lowerContent =
     (\<Sum>(t, weight) \<leftarrow> dict. weight * real (spec_occurrences (toLowerCase t) lowerContent))"

definition spec_normalizedScore :: "lexicon \<Rightarrow> string \<Rightarrow> real" where
  "spec_normalizedScore dict content =
     (let lowerContent = toLowerCase content;
          wordCount = Suc (spec_whitespaceRuns lowerContent)
      in spec_score dict lowerContent / sqrt (real wordCount))"

definition spec_frustrated :: "string \<Rightarrow> bool" where
  "spec_frustrated lowerContent =
     (\<exists>x \<in> {''already'', ''still'', ''multiple times'', ''told you'', ''doesn't work''}.
        sublist x lowerContent)"

definition spec_analysis :: "lexicon \<Rightarrow> string \<Rightarrow> analysis" where
  "spec_analysis dict content =
     (let n = spec_normalizedScore dict content
      in if n > 0.5 then
           (if n > 1.5 \<or> (n > 0.8 \<and> 1 < count_list content (CHR ''!''))
            then \<lparr> type = excitement, confidence = min 0.98 (0.7 + n / 10) \<rparr>
            else \<lparr> type = positive, confidence = min 0.98 (0.7 + n / 5) \<rparr>)
         else if n < - 0.5 then
           \<lparr> type = (if spec_frustrated (toLowerCase content) \<or> n < - 1.0
                       then frustration else negative),
             confidence = min 0.98 (0.7 + \<bar>n\<bar> / 5) \<rparr>
         else \<lparr> type = neutral, confidence = 0.8 \<rparr>)"

section \<open>Appending filler to a text\<close>

text \<open>
  \<open>addsOccurrence x s f\<close>: in \<open>s @ f\<close> the term \<open>x\<close> has an occurrence (up to case)
  that does not lie inside \<open>s\<close>. A filler is neutral for a lexicon when it adds no
  occurrence of a term of the lexicon or of a frustration indicator, and no exclamation
  mark.
\<close>

fun occursIn :: "string \<Rightarrow> string \<Rightarrow> bool" where
  "occursIn x [] = (x = [])"
| "occursIn x (c # cs) = (matchesAt x (c # cs) \<or> occursIn x cs)"

fun addsOccurrence :: "string \<Rightarrow> string \<Rightarrow> string \<Rightarrow> bool" where
  "addsOccurrence x [] f = (if x = [] then f \<noteq> [] else occursIn x f)"
| "addsOccurrence x (c # cs) f =
     ((length (c # cs) < length x \<and> matchesAt x (c # cs @ f)) \<or> addsOccurrence x cs f)"

definition indicatorPhrases :: "string list" where
  "indicatorPhrases = [''already'', ''still'', ''multiple times'', ''told you'', ''doesn't work'']"

definition neutralFiller :: "lexicon \<Rightarrow> string \<Rightarrow> string \<Rightarrow> bool" where
  "neutralFiller dict s f =
     (list_all (\<lambda>x. \<not> addsOccurrence x (toLowerCase s) (toLowerCase f))
        (map fst dict @ indicatorPhrases)
      \<and> CHR ''!'' \<notin> set f)"

text \<open>A lexicon whose terms are all read literally by the pattern language.\<close>

definition literalLexicon :: "lexicon \<Rightarrow> bool" where
  "literalLexicon dict = list_all literalTerm (map fst dict)"

section \<open>The arithmetic of the machine\<close>

text \<open>
  A number of JavaScript is an IEEE 754 double: a finite value, an infinity, or NaN. A
  finite double is a real number of the form \<open>m * 2 ^ k\<close> with \<open>\<bar>m\<bar> < 2 ^ 53\<close> and
  \<open>- 1074 \<le> k \<le> 971\<close>. The two zeros are one value here: the analyzer never divides by
  zero, and no other operation that it uses tells them apart.

  \<open>binary64 x\<close> is the double nearest to the real number \<open>x\<close>, the one with the even
  significand when two are equally near, and an infinity when the rounded magnitude
  reaches \<open>2 ^ 1024\<close>. The spacing of the doubles around \<open>x\<close> is \<open>2 ^ (e - 52)\<close>, where
  \<open>2 ^ e \<le> \<bar>x\<bar> < 2 ^ (e + 1)\<close>, and \<open>2 ^ - 1074\<close> below \<open>2 ^ - 1022\<close>. A number literal of
  the source denotes the double nearest to its decimal value.
\<close>

datatype double = Finite real | PosInf | NegInf | NaN

definition roundTiesToEven :: "real \<Rightarrow> int" where
  "roundTiesToEven q =
     (let f = \<lfloor>q\<rfloor>; d = q - of_int f
      in if d < 1 / 2 then f else if 1 / 2 < d then f + 1 else if even f then f else f + 1)"

definition binary64 :: "real \<Rightarrow> double" where
  "binary64 x =
     (if x = 0 then Finite 0
      else let e = max \<lfloor>log 2 \<bar>x\<bar>\<rfloor> (- 1022);
               ulp = 2 powi (e - 52);
               y = of_int (roundTiesToEven (x / ulp)) * ulp
           in if 2 ^ 1024 \<le> y then PosInf
              else if y \<le> - (2 ^ 1024) then NegInf
              else Finite y)"

text \<open>
  The operations. Each rounds the exact result of finite operands; an operand that is NaN
  gives NaN; the infinities follow the rules of the standard (the difference of two equal
  infinities, the product of an infinity and zero and the quotient of two infinities are
  NaN).
\<close>

definition infinity :: "bool \<Rightarrow> double" where
  "infinity isPositive = (if isPositive then PosInf else NegInf)"

fun dadd :: "double \<Rightarrow> double \<Rightarrow> double" where
  "dadd (Finite x) (Finite y) = binary64 (x + y)"
| "dadd NaN b = NaN"
| "dadd a NaN = NaN"
| "dadd PosInf NegInf = NaN"
| "dadd NegInf PosInf = NaN"
| "dadd PosInf b = PosInf"
| "dadd a PosInf = PosInf"
| "dadd NegInf b = NegInf"
| "dadd a NegInf = NegInf"

fun dmul :: "double \<Rightarrow> double \<Rightarrow> double" where
  "dmul (Finite x) (Finite y) = binary64 (x * y)"
| "dmul NaN b = NaN"
| "dmul a NaN = NaN"
| "dmul (Finite x) b = (if x = 0 then NaN else infinity ((0 < x) = (b = PosInf)))"
| "dmul a (Finite y) = (if y = 0 then NaN else infinity ((0 < y) = (a = PosInf)))"
| "dmul a b = infinity (a = b)"

text \<open>Division; a zero divisor is taken as the positive zero.\<close>

fun ddiv :: "double \<Rightarrow> double \<Rightarrow> double" where
  "ddiv (Finite x) (Finite y) =
     (if y = 0 then (if x = 0 then NaN else infinity (0 < x)) else binary64 (x / y))"
| "ddiv NaN b = NaN"
| "ddiv a NaN = NaN"
| "ddiv (Finite x) b = Finite 0"
| "ddiv a (Finite y) = infinity ((0 \<le> y) = (a = PosInf))"
| "ddiv a b = NaN"

fun dsqrt :: "double \<Rightarrow> double" where
  "dsqrt (Finite x) = (if x < 0 then NaN else binary64 (sqrt x))"
| "dsqrt PosInf = PosInf"
| "dsqrt NegInf = NaN"
| "dsqrt NaN = NaN"

fun dabs :: "double \<Rightarrow> double" where
  "dabs (Finite x) = Finite \<bar>x\<bar>"
| "dabs PosInf = PosInf"
| "dabs NegInf = PosInf"
| "dabs NaN = NaN"

text \<open>\<^verbatim>\<open>a < b\<close>; a comparison with NaN is false. \<^verbatim>\<open>a > b\<close> is \<open>dless b a\<close>.\<close>

fun dless :: "double \<Rightarrow> double \<Rightarrow> bool" where
  "dless (Finite x) (Finite y) = (x < y)"
| "dless NaN b = False"
| "dless a NaN = False"
| "dless NegInf b = (b \<noteq> NegInf)"
| "dless a PosInf = (a \<noteq> PosInf)"
| "dless a b = False"

text \<open>\<^verbatim>\<open>a >= b\<close> and \<^verbatim>\<open>Math.min(a, b)\<close>.\<close>

definition dge :: "double \<Rightarrow> double \<Rightarrow> bool" where
  "dge a b = (a \<noteq> NaN \<and> b \<noteq> NaN \<and> \<not> dless a b)"

definition dmin :: "double \<Rightarrow> double \<Rightarrow> double" where
  "dmin a b = (if a = NaN \<or> b = NaN then NaN else if dless b a then b else a)"

section \<open>analyzeSentiment in the arithmetic of the machine\<close>

text \<open>
  The functions of this section are those of the section on \<open>analyzeSentiment\<close>, with
  every number a double and every operation rounded. A weight of the lexicon and the
  threshold of the configuration, kept as real numbers in the records, stand for the
  doubles nearest to them. The counts of matches and of words are integers below
  \<open>2 ^ 53\<close>, which are doubles. The tests of the first four special cases involve no
  number.
\<close>

record analysis64 =
  type64 :: sentiment
  confidence64 :: double

definition specialCase5_64 :: "lexicon \<Rightarrow> string \<Rightarrow> bool" where
  "specialCase5_64 dict lowerContent =
     (includesStr lowerContent ''spectacular''
      \<and> (case map_of dict ''spectacular'' of
            None \<Rightarrow> False
          | Some w \<Rightarrow> dge (binary64 w) (binary64 1.8)))"

definition specialCases64 :: "lexicon \<Rightarrow> string \<Rightarrow> analysis64 option" where
  "specialCases64 dict lowerContent =
     (if specialCase1 lowerContent
        then Some \<lparr> type64 = positive, confidence64 = binary64 0.9 \<rparr>
      else if specialCase2 lowerContent
        then Some \<lparr> type64 = negative, confidence64 = binary64 0.9 \<rparr>
      else if specialCase3 lowerContent
        then Some \<lparr> type64 = frustration, confidence64 = binary64 0.9 \<rparr>
      else if specialCase4 lowerContent
        then Some \<lparr> type64 = excitement, confidence64 = binary64 0.95 \<rparr>
      else if specialCase5_64 dict lowerContent
        then Some \<lparr> type64 = excitement, confidence64 = binary64 0.9 \<rparr>
      else None)"

fun scoreEntries64 :: "lexicon \<Rightarrow> string \<Rightarrow> double \<Rightarrow> nat \<Rightarrow> (double \<times> nat) outcome" where
  "scoreEntries64 [] lowerContent sentimentScore matchCount =
     Returns (sentimentScore, matchCount)"
| "scoreEntries64 ((t, score) # es) lowerContent sentimentScore matchCount =
     (case regexMatchCount t lowerContent of
        Returns matches \<Rightarrow>
          if matches > 0
          then scoreEntries64 es lowerContent
                 (dadd sentimentScore (dmul (binary64 score) (Finite (real matches))))
                 (matchCount + matches)
          else scoreEntries64 es lowerContent sentimentScore matchCount
      | Throws e \<Rightarrow> Throws e
      | Unmodelled \<Rightarrow> Unmodelled)"

definition thresholds64 :: "double \<Rightarrow> bool \<Rightarrow> string \<Rightarrow> analysis64" where
  "thresholds64 normalizedScore hasMultipleExclamations lowerContent =
     (let r =
        (if dless (binary64 0.5) normalizedScore then
           (if dless (binary64 1.5) normalizedScore
               \<or> (dless (binary64 0.8) normalizedScore \<and> hasMultipleExclamations)
            then \<lparr> type64 = excitement,
                   confidence64 = dadd (binary64 0.7) (ddiv normalizedScore (Finite 10)) \<rparr>
            else \<lparr> type64 = positive,
                   confidence64 = dadd (binary64 0.7) (ddiv normalizedScore (Finite 5)) \<rparr>)
         else if dless normalizedScore (binary64 (- 0.5)) then
           (if frustrationIndicators lowerContent \<or> dless normalizedScore (binary64 (- 1.0))
            then \<lparr> type64 = frustration,
                   confidence64 = dadd (binary64 0.7) (ddiv (dabs normalizedScore) (Finite 5)) \<rparr>
            else \<lparr> type64 = negative,
                   confidence64 = dadd (binary64 0.7) (ddiv (dabs normalizedScore) (Finite 5)) \<rparr>)
         else \<lparr> type64 = neutral, confidence64 = binary64 0.8 \<rparr>)
      in r\<lparr> confidence64 := dmin (confidence64 r) (binary64 0.98) \<rparr>)"

definition belowThreshold64 :: "real \<Rightarrow> analysis64 \<Rightarrow> analysis64" where
  "belowThreshold64 threshold r =
     (if dless (confidence64 r) (binary64 threshold)
      then \<lparr> type64 = neutral, confidence64 = binary64 0.8 \<rparr> else r)"

definition scored64 :: "lexicon \<Rightarrow> string \<Rightarrow> analysis64 outcome" where
  "scored64 dict content =
     (let lowerContent = toLowerCase content;
          wordCount = length (splitWs lowerContent)
      in case scoreEntries64 dict lowerContent (Finite 0) 0 of
           Returns (sentimentScore, matchCount) \<Rightarrow>
             let normalizedScore =
                   (if wordCount > 0
                    then ddiv sentimentScore (dsqrt (Finite (real wordCount)))
                    else Finite 0);
                 exclamationCount = length (filter (\<lambda>c. c = CHR ''!'') content);
                 hasMultipleExclamations = (exclamationCount > 1)
             in Returns (thresholds64 normalizedScore hasMultipleExclamations lowerContent)
         | Throws e \<Rightarrow> Throws e
         | Unmodelled \<Rightarrow> Unmodelled)"

definition analyzeSentiment64 :: "SentimentAnalyzer \<Rightarrow> json option \<Rightarrow> analysis64 outcome" where
  "analyzeSentiment64 this content =
     (case content of
        Some (JStr s) \<Rightarrow>
          if s = [] then Returns \<lparr> type64 = neutral, confidence64 = Finite 1 \<rparr>
          else (case specialCases64 (dictionary this) (toLowerCase s) of
                  Some r \<Rightarrow> Returns r
                | None \<Rightarrow>
                    (case scored64 (dictionary this) s of
                       Returns r \<Rightarrow>
                         Returns (belowThreshold64 (confidenceThreshold (config this)) r)
                     | Throws e \<Rightarrow> Throws e
                     | Unmodelled \<Rightarrow> Unmodelled))
      | _ \<Rightarrow> Returns \<lparr> type64 = neutral, confidence64 = Finite 1 \<rparr>)"

section \<open>The scoring rule of claim C1\<close>

text \<open>
  The definitions of this section do not come from the source. They spell out the
  scoring rule in the words of claim C1, in the arithmetic of the machine, to be compared
  with \<open>analyzeSentiment64\<close>. The occurrences of a term are those of
  \<open>spec_occurrences\<close>. The score adds, in the order of the lexicon, the weight of every
  term that occurs times the number of its occurrences. The tokens of a text are its
  maximal runs of characters that are not white space. The normalized score is the score
  divided by the square root of the number of tokens, and zero for a text without token.
\<close>

fun spec_tokens :: "string \<Rightarrow> nat" where
  "spec_tokens [] = 0"
| "spec_tokens [c] = (if isSpace c then 0 else 1)"
| "spec_tokens (c # d # cs) =
     (if \<not> isSpace c \<and> isSpace d then 1 else 0) + spec_tokens (d # cs)"

definition spec64_score :: "lexicon \<Rightarrow> string \<Rightarrow> double" where
  "spec64_score dict lowerContent =
     foldl (\<lambda>total (t, weight).
              let n = spec_occurrences (toLowerCase t) lowerContent
              in if n = 0 then total
                 else dadd total (dmul (binary64 weight) (Finite (real n))))
       (Finite 0) dict"

definition spec64_normalizedScore :: "lexicon \<Rightarrow> string \<Rightarrow> double" where
  "spec64_normalizedScore dict content =
     (let lowerContent = toLowerCase content;
          wordCount = spec_tokens lowerContent
      in if wordCount = 0 then Finite 0
         else ddiv (spec64_score dict lowerContent) (dsqrt (Finite (real wordCount))))"

definition spec64_analysis :: "lexicon \<Rightarrow> string \<Rightarrow> analysis64" where
  "spec64_analysis dict content =
     (let n = spec64_normalizedScore dict content
      in if dless (binary64 0.5) n then
           (if dless (binary64 1.5) n \<or> (dless (binary64 0.8) n \<and> 1 < count_list content (CHR ''!''))
            then \<lparr> type64 = excitement,
                   confidence64 = dmin (binary64 0.98) (dadd (binary64 0.7) (ddiv n (Finite 10))) \<rparr>
            else \<lparr> type64 = positive,
                   confidence64 = dmin (binary64 0.98) (dadd (binary64 0.7) (ddiv n (Finite 5))) \<rparr>)
         else if dless n (binary64 (- 0.5)) then
           \<lparr> type64 = (if spec_frustrated (toLowerCase content) \<or> dless n (binary64 (- 1.0))
                         then frustration else negative),
             confidence64 = dmin (binary64 0.98) (dadd (binary64 0.7) (ddiv (dabs n) (Finite 5))) \<rparr>
         else \<lparr> type64 = neutral, confidence64 = binary64 0.8 \<rparr>)"

section \<open>Strings and case\<close>

lemma startsWith_prefix: "startsWith s x \<longleftrightarrow> prefix x s"
  by (induction s x rule: startsWith.induct) auto

lemma includesStr_sublist: "includesStr s x \<longleftrightarrow> sublist x s"
  by (induction s) (auto simp: startsWith_prefix sublist_Cons_right)

lemma of_char_bound: "(of_char c :: nat) < 256"
proof -
  have "(of_char c :: nat) mod 256 = of_char c" by simp
  then show ?thesis by (metis mod_less_divisor zero_less_numeral)
qed

lemma lowerCode_canonCode: "lowerCode (canonCode n) = lowerCode n"
proof (cases "lowerCaseUnit n")
  case True
  then have c: "canonCode n = n - 32" by (simp add: canonCode_def)
  from True have 1: "\<not> upperCaseUnit n" unfolding lowerCaseUnit_def upperCaseUnit_def by linarith
  from True have 2: "upperCaseUnit (n - 32)" unfolding lowerCaseUnit_def upperCaseUnit_def by linarith
  from True have 3: "n - 32 + 32 = n" unfolding lowerCaseUnit_def by linarith
  show ?thesis unfolding c lowerCode_def using 1 2 3 by (simp only: if_True if_False)
next
  case False
  have "canonCode n = n" unfolding canonCode_def using False by (rule if_not_P)
  then show ?thesis by simp
qed

lemma canonCode_lowerCode: "canonCode (lowerCode n) = canonCode n"
proof (cases "upperCaseUnit n")
  case True
  then have c: "lowerCode n = n + 32" by (simp add: lowerCode_def)
  from True have 1: "\<not> lowerCaseUnit n" unfolding lowerCaseUnit_def upperCaseUnit_def by linarith
  from True have 2: "lowerCaseUnit (n + 32)" unfolding lowerCaseUnit_def upperCaseUnit_def by linarith
  show ?thesis unfolding c canonCode_def using 1 2 by (simp only: if_True if_False add_diff_cancel_right')
next
  case False
  have "lowerCode n = n" unfolding lowerCode_def using False by (rule if_not_P)
  then show ?thesis by simp
qed

lemma canonCode_eq_iff: "canonCode m = canonCode n \<longleftrightarrow> lowerCode m = lowerCode n"
  by (metis lowerCode_canonCode canonCode_lowerCode)

lemma lowerCode_idem: "lowerCode (lowerCode n) = lowerCode n"
  by (metis lowerCode_canonCode canonCode_lowerCode)

lemma of_char_lowerChar: "(of_char (lowerChar c) :: nat) = lowerCode (of_char c)"
proof (cases "upperCaseUnit (of_char c)")
  case True
  have "(of_char c :: nat) + 32 < 256" using True unfolding upperCaseUnit_def by linarith
  then have "(of_char c + 32 :: nat) mod 256 = of_char c + 32" by simp
  with True show ?thesis by (simp add: lowerChar_def lowerCode_def)
next
  case False
  then show ?thesis by (simp add: lowerChar_def lowerCode_def)
qed

lemma canonicalize_eq_iff: "canonicalize a = canonicalize b \<longleftrightarrow> lowerChar a = lowerChar b"
proof -
  have "lowerChar a = lowerChar b \<longleftrightarrow> (of_char (lowerChar a) :: nat) = of_char (lowerChar b)"
    by (simp only: of_char_eq_iff)
  then show ?thesis
    by (simp only: canonicalize_def canonCode_eq_iff of_char_lowerChar)
qed

lemma lowerChar_idem: "lowerChar (lowerChar c) = lowerChar c"
proof -
  have "(of_char (lowerChar (lowerChar c)) :: nat) = of_char (lowerChar c)"
    by (simp only: of_char_lowerChar lowerCode_idem)
  then show ?thesis by (simp only: of_char_eq_iff)
qed

lemma toLowerCase_idem: "toLowerCase (toLowerCase s) = toLowerCase s"
  by (simp add: toLowerCase_def lowerChar_idem)

lemma isSpace_lowerChar: "isSpace (lowerChar c) = isSpace c"
proof (cases "upperCaseUnit (of_char c)")
  case True
  then have c: "lowerCode (of_char c) = of_char c + 32" by (simp add: lowerCode_def)
  from True show ?thesis
    unfolding isSpace_def Let_def of_char_lowerChar c upperCaseUnit_def by linarith
next
  case False
  then show ?thesis by (simp add: lowerChar_def)
qed

lemma matchesAt_lower: "matchesAt t s \<longleftrightarrow> prefix (toLowerCase t) (toLowerCase s)"
  by (induction t s rule: matchesAt.induct) (auto simp: toLowerCase_def canonicalize_eq_iff)

lemma toLowerCase_Nil_iff: "toLowerCase t = [] \<longleftrightarrow> t = []"
  by (simp add: toLowerCase_def)

lemma length_toLowerCase: "length (toLowerCase t) = length t"
  by (simp add: toLowerCase_def)

lemma toLowerCase_drop: "toLowerCase (drop n s) = drop n (toLowerCase s)"
  by (simp add: toLowerCase_def drop_map)

lemma toLowerCase_tl: "toLowerCase (tl s) = tl (toLowerCase s)"
  by (simp add: toLowerCase_def map_tl)

lemma toLowerCase_append: "toLowerCase (s @ f) = toLowerCase s @ toLowerCase f"
  by (simp add: toLowerCase_def)

lemma countMatches_lower:
  "countMatches t s = spec_occurrences (toLowerCase t) (toLowerCase s)"
proof (induction t s rule: countMatches.induct)
  case (1 t s)
  show ?case
  proof (cases "t = []")
    case True
    then show ?thesis
      by (simp add: countMatches.simps spec_occurrences.simps toLowerCase_def)
  next
    case t: False
    show ?thesis
    proof (cases "s = []")
      case True
      with t show ?thesis
        by (simp add: countMatches.simps spec_occurrences.simps toLowerCase_def)
    next
      case s: False
      show ?thesis
      proof (cases "matchesAt t s")
        case True
        with t s "1.IH"(1) have "countMatches t (drop (length t) s)
            = spec_occurrences (toLowerCase t) (toLowerCase (drop (length t) s))"
          by simp
        with t s True show ?thesis
          by (subst countMatches.simps, subst spec_occurrences.simps)
             (simp add: matchesAt_lower [symmetric] toLowerCase_Nil_iff length_toLowerCase
                        toLowerCase_drop)
      next
        case False
        with t s "1.IH"(2) have "countMatches t (tl s)
            = spec_occurrences (toLowerCase t) (toLowerCase (tl s))"
          by simp
        with t s False show ?thesis
          by (subst countMatches.simps, subst spec_occurrences.simps)
             (simp add: matchesAt_lower [symmetric] toLowerCase_Nil_iff toLowerCase_tl)
      qed
    qed
  qed
qed

lemma countMatches_lowerContent:
  "countMatches t (toLowerCase s) = spec_occurrences (toLowerCase t) (toLowerCase s)"
  by (simp add: countMatches_lower toLowerCase_idem)

section \<open>Word count\<close>

lemma runs_space: "isSpace c \<Longrightarrow>
  spec_whitespaceRuns (c # cs) = Suc (spec_whitespaceRuns (dropWhile isSpace cs))"
  by (induction cs arbitrary: c) auto

lemma runs_nonspace: "\<not> isSpace c \<Longrightarrow> spec_whitespaceRuns (c # cs) = spec_whitespaceRuns cs"
  by (cases cs) auto

lemma length_splitFrom: "length (splitFrom cur s) = Suc (spec_whitespaceRuns s)"
  by (induction cur s rule: splitFrom.induct) (auto simp: runs_space runs_nonspace)

lemma length_splitWs: "length (splitWs s) = Suc (spec_whitespaceRuns s)"
  by (simp add: splitWs_def length_splitFrom)

section \<open>The scoring loop\<close>

lemma scoreEntries_literal:
  "literalLexicon es \<Longrightarrow>
   scoreEntries es lc sc mc =
     Returns (sc + (\<Sum>(t, w) \<leftarrow> es. w * real (countMatches t lc)),
              mc + (\<Sum>(t, w) \<leftarrow> es. countMatches t lc))"
proof (induction es arbitrary: sc mc)
  case Nil
  then show ?case by simp
next
  case (Cons e es)
  obtain t w where e: "e = (t, w)" by (cases e)
  from Cons.prems have lit: "literalTerm t" and rest: "literalLexicon es"
    by (simp_all add: literalLexicon_def e)
  show ?case
    by (simp add: e regexMatchCount_def lit Cons.IH [OF rest] algebra_simps)
qed

lemma score_sum_spec:
  "(\<Sum>(t, w) \<leftarrow> es. w * real (countMatches t (toLowerCase s))) = spec_score es (toLowerCase s)"
  by (simp add: spec_score_def countMatches_lowerContent)

lemma frustrationIndicators_spec: "frustrationIndicators lc = spec_frustrated lc"
  by (simp add: frustrationIndicators_def spec_frustrated_def includesStr_sublist)

lemma exclamationCount: "length (filter (\<lambda>c. c = CHR ''!'') s) = count_list s (CHR ''!'')"
  by (induction s) auto

lemma scored_literal:
  assumes "literalLexicon dict"
  shows "scored dict s =
     Returns (thresholds (spec_normalizedScore dict s) (1 < count_list s (CHR ''!'')) (toLowerCase s))"
  by (simp add: scored_def Let_def scoreEntries_literal [OF assms] score_sum_spec
        length_splitWs spec_normalizedScore_def exclamationCount)

lemma thresholds_spec:
  "thresholds (spec_normalizedScore dict s) (1 < count_list s (CHR ''!'')) (toLowerCase s)
     = spec_analysis dict s"
  by (simp add: thresholds_def spec_analysis_def Let_def frustrationIndicators_spec min.commute)

lemma analyzeSentiment_generic:
  assumes "s \<noteq> []"
    and "specialCases (dictionary this) (toLowerCase s) = None"
    and "literalLexicon (dictionary this)"
  shows "analyzeSentiment this (Some (JStr s)) =
     Returns (belowThreshold (confidenceThreshold (config this)) (spec_analysis (dictionary this) s))"
proof -
  have "scored (dictionary this) s = Returns (spec_analysis (dictionary this) s)"
    by (simp only: scored_literal [OF assms(3)] thresholds_spec)
  with assms(1,2) show ?thesis
    by (simp add: analyzeSentiment_def)
qed

section \<open>The built-in lexicon\<close>

lemma builtinDictionary_entries:
  "builtinDictionary =
     [(''good'', 0.7), (''great'', 1.0), (''excellent'', 1.3), (''amazing'', 1.5),
      (''fantastic'', 1.5), (''wonderful'', 1.3), (''happy'', 1.0), (''pleased'', 0.8),
      (''satisfied'', 0.7), (''love'', 1.4), (''like'', 0.8), (''enjoy'', 0.9),
      (''awesome'', 1.5), (''works great'', 1.2), (''really happy'', 1.4),
      (''bad'', - 0.7), (''terrible'', - 1.3), (''awful'', - 1.3), (''horrible'', - 1.5),
      (''disappointed'', - 1.0), (''very disappointed'', - 1.5), (''upset'', - 1.0),
      (''frustrated'', - 1.2), (''frustrating'', - 1.2), (''annoyed'', - 0.8),
      (''angry'', - 1.3), (''hate'', - 1.5), (''dislike'', - 0.7), (''poor'', - 0.7),
      (''worst'', - 1.5),
      (''already'', - 0.5), (''repeatedly'', - 0.6), (''multiple times'', - 0.9),
      (''still not'', - 0.8), (''keep getting'', - 0.7), (''not working'', - 0.8),
      (''told you'', - 1.0), (''keeps happening'', - 0.9),
      (''still doesn't'', - 1.2),
      (''wow'', 1.5), (''incredible'', 1.6), (''unbelievable'', 1.4),
      (''can't believe'', 1.2), (''spectacular'', 1.8),
      (''!'', 0.3), (''!!'', 0.6), (''!!!'', 0.9)]"
  by (simp add: builtinDictionary_def objectLiteral_def setOwn_def arrayIndex_def isDigit_def
        positiveTerms_def negativeTerms_def frustrationTerms_def excitementTerms_def)

lemma spec_score_Nil: "spec_score [] lc = 0"
  by (simp add: spec_score_def)

lemma spec_score_Cons:
  "spec_score ((t, w) # es) lc = w * real (spec_occurrences (toLowerCase t) lc) + spec_score es lc"
  by (simp add: spec_score_def)

lemma occ_Nil: "x \<noteq> [] \<Longrightarrow> spec_occurrences x [] = 0"
  by (simp add: spec_occurrences.simps)

lemma occ_Cons:
  "x \<noteq> [] \<Longrightarrow> spec_occurrences x (c # cs) =
     (if prefix x (c # cs) then Suc (spec_occurrences x (drop (length x) (c # cs)))
      else spec_occurrences x cs)"
  by (subst spec_occurrences.simps) simp

lemma builtin_literal: "literalLexicon builtinDictionary"
  unfolding builtinDictionary_entries
  by (simp add: literalLexicon_def literalTerm_def syntaxCharacters_def)

lemma assign_Nil: "assign d [] = d"
  by (simp add: assign_def)

lemma default_dictionary: "dictionary (newSentimentAnalyzer threshold None) = builtinDictionary"
  by (simp add: newSentimentAnalyzer_def assign_Nil)


section \<open>Claim C3: the empty string\<close>

lemma analyzeSentiment_guard:
  "(\<forall>s. content = Some (JStr s) \<longrightarrow> s = []) \<Longrightarrow>
   analyzeSentiment this content = Returns \<lparr> type = neutral, confidence = 1 \<rparr>"
  by (auto simp: analyzeSentiment_def split: option.splits json.splits)

text \<open>
  Claim C3, as amended. For the empty string \<^verbatim>\<open>""\<close>, \<open>analyzeSentiment\<close> returns neutral
  with confidence 1.0, for every analyzer: the empty string is falsy, so the guard
  \<^verbatim>\<open>!content\<close> returns before any scoring.
\<close>

theorem C3_empty_string_takes_guard:
  "analyzeSentiment this (Some (JStr [])) = Returns \<lparr> type = neutral, confidence = 1 \<rparr>"
  by (simp add: analyzeSentiment_def)

text \<open>
  Claim C3, as stated, fails: the result for the empty string is not neutral with
  confidence 0.8, already for the analyzer of the default configuration.
\<close>

theorem C3_counterexample:
  "analyzeSentiment (newSentimentAnalyzer None None) (Some (JStr ''''))
     \<noteq> Returns \<lparr> type = neutral, confidence = 0.8 \<rparr>"
  by (simp add: analyzeSentiment_def)

section \<open>Evaluation on concrete inputs\<close>

lemmas specialCase_defs = specialCases_def specialCase1_def specialCase2_def specialCase3_def
        specialCase4_def specialCase5_def
lemmas lower_eval = toLowerCase_def lowerChar_def upperCaseUnit_def lowerCode_def char_of_def bit_Suc_0_iff
lemmas score_eval = spec_score_Nil spec_score_Cons occ_Nil occ_Cons

lemma setOwn_fresh:
  "k \<notin> fst ` set d \<Longrightarrow> arrayIndex k = None \<Longrightarrow> setOwn k v d = d @ [(k, v)]"
  by (simp add: setOwn_def)

lemma builtin_keys:
  "map fst builtinDictionary =
     [''good'', ''great'', ''excellent'', ''amazing'', ''fantastic'', ''wonderful'', ''happy'',
      ''pleased'', ''satisfied'', ''love'', ''like'', ''enjoy'', ''awesome'', ''works great'',
      ''really happy'', ''bad'', ''terrible'', ''awful'', ''horrible'', ''disappointed'',
      ''very disappointed'', ''upset'', ''frustrated'', ''frustrating'', ''annoyed'', ''angry'',
      ''hate'', ''dislike'', ''poor'', ''worst'', ''already'', ''repeatedly'', ''multiple times'',
      ''still not'', ''keep getting'', ''not working'', ''told you'', ''keeps happening'',
      ''still doesn't'', ''wow'', ''incredible'', ''unbelievable'', ''can't believe'',
      ''spectacular'', ''!'', ''!!'', ''!!!'']"
  by (simp add: builtinDictionary_entries)

lemma spec_score_append: "spec_score (xs @ ys) lc = spec_score xs lc + spec_score ys lc"
  by (simp add: spec_score_def)

lemma literalLexicon_append: "literalLexicon (xs @ ys) \<longleftrightarrow> literalLexicon xs \<and> literalLexicon ys"
  by (simp add: literalLexicon_def)

lemma includesStr_nonempty: "includesStr (toLowerCase s) x \<Longrightarrow> x \<noteq> [] \<Longrightarrow> s \<noteq> []"
  by (cases s) (auto simp: toLowerCase_def)

lemma builtin_spectacular: "map_of builtinDictionary ''spectacular'' = Some 1.8"
  by (simp add: builtinDictionary_entries)

section \<open>Claim C4: the fifth special case\<close>

text \<open>
  Claim C4, as amended. The fifth special case looks at the single term \<^verbatim>\<open>spectacular\<close>:
  for every analyzer whose lexicon gives \<^verbatim>\<open>spectacular\<close> a weight of at least 1.8 (the
  built-in weight is 1.8), and every content whose lower case contains \<^verbatim>\<open>spectacular\<close>
  and meets none of the four earlier special cases, \<open>analyzeSentiment\<close> returns
  excitement with confidence 0.90.
\<close>

theorem C4_spectacular:
  assumes "map_of (dictionary this) ''spectacular'' = Some w" and "w \<ge> 1.8"
    and "includesStr (toLowerCase s) ''spectacular''"
    and "\<not> specialCase1 (toLowerCase s)" and "\<not> specialCase2 (toLowerCase s)"
    and "\<not> specialCase3 (toLowerCase s)" and "\<not> specialCase4 (toLowerCase s)"
  shows "analyzeSentiment this (Some (JStr s)) = Returns \<lparr> type = excitement, confidence = 0.9 \<rparr>"
proof -
  from assms(3) have "s \<noteq> []" by (rule includesStr_nonempty) simp
  moreover from assms have "specialCases (dictionary this) (toLowerCase s)
      = Some \<lparr> type = excitement, confidence = 0.9 \<rparr>"
    by (simp add: specialCases_def specialCase5_def)
  ultimately show ?thesis by (simp add: analyzeSentiment_def)
qed

text \<open>The theorem at the default analyzer and the text \<^verbatim>\<open>Spectacular!\<close>.\<close>

theorem C4_witness:
  "map_of (dictionary (newSentimentAnalyzer None None)) ''spectacular'' = Some 1.8 \<and>
   includesStr (toLowerCase ''Spectacular!'') ''spectacular'' \<and>
   \<not> specialCase1 (toLowerCase ''Spectacular!'') \<and> \<not> specialCase2 (toLowerCase ''Spectacular!'') \<and>
   \<not> specialCase3 (toLowerCase ''Spectacular!'') \<and> \<not> specialCase4 (toLowerCase ''Spectacular!'') \<and>
   analyzeSentiment (newSentimentAnalyzer None None) (Some (JStr ''Spectacular!''))
     = Returns \<lparr> type = excitement, confidence = 0.9 \<rparr>"
proof -
  let ?A = "newSentimentAnalyzer None None"
  have lc: "toLowerCase ''Spectacular!'' = ''spectacular!''" by (simp add: lower_eval)
  have 1: "map_of (dictionary ?A) ''spectacular'' = Some 1.8"
    by (simp only: default_dictionary builtin_spectacular)
  have 2: "(1.8::real) \<ge> 1.8" by simp
  have 3: "includesStr (toLowerCase ''Spectacular!'') ''spectacular''" unfolding lc by simp
  have 4: "\<not> specialCase1 (toLowerCase ''Spectacular!'')" unfolding lc by (simp add: specialCase1_def)
  have 5: "\<not> specialCase2 (toLowerCase ''Spectacular!'')" unfolding lc by (simp add: specialCase2_def)
  have 6: "\<not> specialCase3 (toLowerCase ''Spectacular!'')" unfolding lc by (simp add: specialCase3_def)
  have 7: "\<not> specialCase4 (toLowerCase ''Spectacular!'')" unfolding lc by (simp add: specialCase4_def)
  from 1 3 4 5 6 7 C4_spectacular [OF 1 2 3 4 5 6 7] show ?thesis by blast
qed

lemma custom_dict:
  "dictionary (newSentimentAnalyzer None (Some [(''specialized_term'', 1.8)]))
     = builtinDictionary @ [(''specialized_term'', 1.8)]"
proof -
  have "''specialized_term'' \<notin> fst ` set builtinDictionary"
    unfolding set_map [symmetric] builtin_keys by simp
  moreover have "arrayIndex ''specialized_term'' = None"
    by (simp add: arrayIndex_def isDigit_def)
  ultimately show ?thesis
    by (simp add: newSentimentAnalyzer_def assign_def setOwn_fresh)
qed

lemma custom_score0: "spec_score builtinDictionary ''a specialized_term b c'' = 0"
  unfolding builtinDictionary_entries
  by (simp add: score_eval lower_eval)

lemma custom_score: "spec_score (builtinDictionary @ [(''specialized_term'', 1.8)])
     ''a specialized_term b c'' = 1.8"
  unfolding spec_score_append custom_score0
  by (simp add: score_eval lower_eval)

text \<open>
  Claim C4, as stated, fails for another term of weight 1.8. With the custom dictionary
  \<^verbatim>\<open>{specialized_term: 1.8}\<close> of the repository's tests and the text
  \<^verbatim>\<open>a specialized_term b c\<close>, no special case applies; the score 1.8 over four words
  gives the normalized score 0.9 and the result positive with confidence 0.88.
\<close>

theorem C4_counterexample:
  "map_of (dictionary (newSentimentAnalyzer None (Some [(''specialized_term'', 1.8)])))
       ''specialized_term'' = Some 1.8 \<and>
   includesStr (toLowerCase ''a specialized_term b c'') ''specialized_term'' \<and>
   \<not> specialCase1 (toLowerCase ''a specialized_term b c'') \<and>
   \<not> specialCase2 (toLowerCase ''a specialized_term b c'') \<and>
   \<not> specialCase3 (toLowerCase ''a specialized_term b c'') \<and>
   \<not> specialCase4 (toLowerCase ''a specialized_term b c'') \<and>
   analyzeSentiment (newSentimentAnalyzer None (Some [(''specialized_term'', 1.8)]))
       (Some (JStr ''a specialized_term b c''))
     = Returns \<lparr> type = positive, confidence = 0.88 \<rparr> \<and>
   analyzeSentiment (newSentimentAnalyzer None (Some [(''specialized_term'', 1.8)]))
       (Some (JStr ''a specialized_term b c''))
     \<noteq> Returns \<lparr> type = excitement, confidence = 0.9 \<rparr>"
proof -
  let ?A = "newSentimentAnalyzer None (Some [(''specialized_term'', 1.8)])"
  let ?c = "''a specialized_term b c''"
  have lc: "toLowerCase ?c = ?c" by (simp add: lower_eval)
  have 1: "map_of (dictionary ?A) ''specialized_term'' = Some 1.8"
    unfolding custom_dict by (simp add: builtinDictionary_entries)
  have 3: "includesStr (toLowerCase ?c) ''specialized_term''" unfolding lc by simp
  have 4: "\<not> specialCase1 (toLowerCase ?c)" unfolding lc by (simp add: specialCase1_def)
  have 5: "\<not> specialCase2 (toLowerCase ?c)" unfolding lc by (simp add: specialCase2_def)
  have 6: "\<not> specialCase3 (toLowerCase ?c)" unfolding lc by (simp add: specialCase3_def)
  have 7: "\<not> specialCase4 (toLowerCase ?c)" unfolding lc by (simp add: specialCase4_def)
  have 8: "\<not> specialCase5 (dictionary ?A) (toLowerCase ?c)" unfolding lc by (simp add: specialCase5_def)
  have none: "specialCases (dictionary ?A) (toLowerCase ?c) = None"
    using 4 5 6 7 8 by (simp add: specialCases_def)
  have lit: "literalLexicon (dictionary ?A)"
    unfolding custom_dict literalLexicon_append
    by (simp add: builtin_literal) (simp add: literalLexicon_def literalTerm_def syntaxCharacters_def)
  have n: "spec_normalizedScore (dictionary ?A) ?c = 0.9"
    unfolding spec_normalizedScore_def Let_def lc custom_dict custom_score
    by (simp add: isSpace_def)
  have a: "spec_analysis (dictionary ?A) ?c = \<lparr> type = positive, confidence = 0.88 \<rparr>"
    unfolding spec_analysis_def Let_def n by simp
  have thr: "confidenceThreshold (config ?A) = 0.65" by (simp add: newSentimentAnalyzer_def)
  have r: "analyzeSentiment ?A (Some (JStr ?c)) = Returns \<lparr> type = positive, confidence = 0.88 \<rparr>"
  proof -
    have ne: "?c \<noteq> []" by simp
    show ?thesis
      unfolding analyzeSentiment_generic [OF ne none lit] a thr by (simp add: belowThreshold_def)
  qed
  from 1 3 4 5 6 7 r show ?thesis by simp
qed

section \<open>Results of the two paths\<close>

lemma specialCases_confidence:
  "specialCases d lc = Some r \<Longrightarrow> confidence r = 0.9 \<or> confidence r = 0.95"
  by (auto simp: specialCases_def split: if_splits)


lemma scored_spec: "literalLexicon d \<Longrightarrow> scored d s = Returns (spec_analysis d s)"
  by (simp only: scored_literal thresholds_spec)

lemma scored_thresholds:
  "scored d s = Returns g \<Longrightarrow> \<exists>n e. g = thresholds n e (toLowerCase s)"
  by (auto simp: scored_def Let_def split: outcome.splits prod.splits)

lemma thresholds_neutral: "type (thresholds n e lc) = neutral \<Longrightarrow> confidence (thresholds n e lc) = 0.8"
  by (auto simp: thresholds_def Let_def split: if_splits)




lemma good_lower: "toLowerCase ''good'' = ''good''"
  by (simp add: lower_eval)

lemma good_special: "specialCases d (toLowerCase ''good'') = None"
  unfolding good_lower by (simp add: specialCase_defs)

lemma good_score: "spec_score builtinDictionary ''good'' = 0.7"
  unfolding builtinDictionary_entries by (simp add: score_eval lower_eval)

lemma good_analysis: "spec_analysis builtinDictionary ''good'' = \<lparr> type = positive, confidence = 0.84 \<rparr>"
proof -
  have "spec_normalizedScore builtinDictionary ''good'' = 0.7"
    unfolding spec_normalizedScore_def Let_def good_lower good_score by (simp add: isSpace_def)
  then show ?thesis unfolding spec_analysis_def Let_def by simp
qed

lemma good_scored: "scored builtinDictionary ''good'' = Returns \<lparr> type = positive, confidence = 0.84 \<rparr>"
  by (simp only: scored_spec [OF builtin_literal] good_analysis)

section \<open>Claim C5: the confidence floor and the special cases\<close>





section \<open>Claim C10: the confidence of the generic path\<close>



section \<open>Claim C2: totality\<close>

lemma scoreEntries_append:
  "literalLexicon es \<Longrightarrow>
   scoreEntries (es @ es') lc sc mc =
     scoreEntries es' lc (sc + (\<Sum>(t, w) \<leftarrow> es. w * real (countMatches t lc)))
                         (mc + (\<Sum>(t, w) \<leftarrow> es. countMatches t lc))"
proof (induction es arbitrary: sc mc)
  case Nil
  then show ?case by simp
next
  case (Cons e es)
  obtain t w where e: "e = (t, w)" by (cases e)
  from Cons.prems have lit: "literalTerm t" and rest: "literalLexicon es"
    by (simp_all add: literalLexicon_def e)
  show ?case
    by (simp add: e regexMatchCount_def lit Cons.IH [OF rest] algebra_simps)
qed

text \<open>With a lexicon of literal terms \<open>analyzeSentiment\<close> returns on every content. The
  built-in lexicon is one.\<close>

lemma analyzeSentiment_total:
  assumes "literalLexicon (dictionary this)"
  shows "\<exists>r. analyzeSentiment this content = Returns r"
proof (cases "\<exists>s. content = Some (JStr s) \<and> s \<noteq> []")
  case True
  then obtain s where "content = Some (JStr s)" and "s \<noteq> []" by blast
  then show ?thesis
    by (cases "specialCases (dictionary this) (toLowerCase s)")
       (simp_all add: analyzeSentiment_def scored_spec [OF assms])
next
  case False
  then have "analyzeSentiment this content = Returns \<lparr> type = neutral, confidence = 1 \<rparr>"
    by (intro analyzeSentiment_guard) auto
  then show ?thesis by blast
qed

lemma emoticon_dictionary:
  "dictionary (newSentimentAnalyzer None (Some [('':('', - 1)]))
     = builtinDictionary @ [('':('', - 1)]"
proof -
  have "'':('' \<notin> fst ` set builtinDictionary"
    unfolding set_map [symmetric] builtin_keys by simp
  moreover have "arrayIndex '':('' = None"
    by (simp add: arrayIndex_def isDigit_def)
  ultimately show ?thesis
    by (simp add: newSentimentAnalyzer_def assign_def setOwn_fresh)
qed

lemma emoticon_pattern: "regexMatchCount '':('' lc = Throws SyntaxError"
  by (simp add: regexMatchCount_def literalTerm_def syntaxCharacters_def anchoredTerm_def
        unbalancedGroups_def)

text \<open>
  Claim C2 fails on the code. A custom dictionary whose term is the emoticon \<^verbatim>\<open>:(\<close>
  passes the constructor; on the text \<^verbatim>\<open>hi\<close> no special case applies, the loop reaches
  the custom entry after the built-in ones, and \<^verbatim>\<open>new RegExp('\\b:(\\b|:(', 'gi')\<close>
  throws \<^verbatim>\<open>SyntaxError\<close> for its unterminated group.
\<close>

theorem C2_custom_term_throws:
  "analyzeSentiment (newSentimentAnalyzer None (Some [('':('', - 1)])) (Some (JStr ''hi''))
     = Throws SyntaxError"
proof -
  have lc: "toLowerCase ''hi'' = ''hi''" by (simp add: lower_eval)
  have none: "specialCases d (toLowerCase ''hi'') = None" for d
    unfolding lc by (simp add: specialCase_defs)
  have "scoreEntries (builtinDictionary @ [('':('', - 1)]) lc 0 0 = Throws SyntaxError" for lc
    by (simp add: scoreEntries_append [OF builtin_literal] emoticon_pattern)
  then have "scored (builtinDictionary @ [('':('', - 1)]) ''hi'' = Throws SyntaxError"
    by (simp add: scored_def Let_def)
  then show ?thesis
    by (simp add: analyzeSentiment_def emoticon_dictionary none)
qed

section \<open>The outcomes of analyze\<close>

lemma JSON_copy_id: "JSON_copy v = v"
  by (induction v) (auto intro: map_idI)

lemma map_of_update_other: "k' \<noteq> k \<Longrightarrow> map_of (AList.update k v kvs) k' = map_of kvs k'"
  by (simp add: update_conv')

lemma map_of_update_same: "map_of (AList.update k v kvs) k = Some v"
  by (simp add: update_conv')

text \<open>The three ways in which \<open>analyze\<close> returns on an object.\<close>

lemma analyze_existing:
  assumes "message < length h" and "h ! message = JObj kvs"
    and "map_of kvs ''behavior_tags'' = Some (JObj tags)"
    and "truthy (map_of tags ''sentiment'')"
  shows "analyze this message h = (Returns (length h), h @ [JObj kvs])"
  using assms
  by (simp add: analyze_def Let_def JSON_copy_id andThen_def getProp_def truthy_def)

lemma analyze_tagged:
  assumes "message < length h" and "h ! message = JObj kvs"
    and "map_of kvs ''behavior_tags'' = Some (JObj tags)"
    and "\<not> truthy (map_of tags ''sentiment'')"
    and "analyzeSentiment this (map_of kvs ''content'') = Returns a"
  shows "analyze this message h =
     (Returns (length h),
      h @ [JObj (AList.update ''behavior_tags''
                   (JObj (AList.update ''sentiment'' (sentimentTag a) tags)) kvs)])"
  using assms
  by (simp add: analyze_def Let_def JSON_copy_id andThen_def getProp_def setProp_def truthy_def
        nth_append)

lemma analyze_untagged:
  assumes "message < length h" and "h ! message = JObj kvs"
    and "\<not> truthy (map_of kvs ''behavior_tags'')"
    and "analyzeSentiment this (map_of kvs ''content'') = Returns a"
  shows "analyze this message h =
     (Returns (length h),
      h @ [JObj (AList.update ''behavior_tags'' (JObj [(''sentiment'', sentimentTag a)])
                   (AList.update ''behavior_tags'' (JObj []) kvs))])"
  using assms
  by (simp add: analyze_def Let_def JSON_copy_id andThen_def getProp_def setProp_def
        map_of_update_same nth_append truthy_def)

lemmas analyze_simps = analyze_def Let_def JSON_copy_id andThen_def getProp_def setProp_def
  truthy_def nth_append map_of_update_same

lemma analyze_not_object:
  assumes "\<forall>kvs. h ! message \<noteq> JObj kvs"
  shows "fst (analyze this message h) \<noteq> Returns r"
  using assms
  by (cases "h ! message") (auto simp: analyze_simps split: outcome.splits)

lemma analyze_bad_tags:
  assumes "message < length h" and "h ! message = JObj kvs"
    and "map_of kvs ''behavior_tags'' = Some t" and "truthy (Some t)"
    and "\<forall>tags. t \<noteq> JObj tags"
  shows "fst (analyze this message h) \<noteq> Returns r"
  using assms
  by (cases t) (auto simp: analyze_simps split: outcome.splits)

lemma analyze_no_analysis:
  assumes "message < length h" and "h ! message = JObj kvs"
    and "\<forall>tags. map_of kvs ''behavior_tags'' = Some (JObj tags) \<longrightarrow> \<not> truthy (map_of tags ''sentiment'')"
    and "\<forall>a. analyzeSentiment this (map_of kvs ''content'') \<noteq> Returns a"
  shows "fst (analyze this message h) \<noteq> Returns r"
proof (cases "map_of kvs ''behavior_tags''")
  case None
  with assms show ?thesis
    by (cases "analyzeSentiment this (map_of kvs ''content'')") (auto simp: analyze_simps)
next
  case (Some t)
  with assms show ?thesis
    by (cases t; cases "analyzeSentiment this (map_of kvs ''content'')")
       (auto simp: analyze_simps)
qed

lemma analyze_Returns_cases:
  assumes "analyze this message h = (Returns r, h')"
  shows "\<exists>kvs. message < length h \<and> h ! message = JObj kvs \<and> r = length h \<and>
     ((\<exists>tags. map_of kvs ''behavior_tags'' = Some (JObj tags)
              \<and> truthy (map_of tags ''sentiment'') \<and> h' = h @ [JObj kvs])
      \<or> (\<exists>tags a. map_of kvs ''behavior_tags'' = Some (JObj tags)
              \<and> \<not> truthy (map_of tags ''sentiment'')
              \<and> analyzeSentiment this (map_of kvs ''content'') = Returns a
              \<and> h' = h @ [JObj (AList.update ''behavior_tags''
                              (JObj (AList.update ''sentiment'' (sentimentTag a) tags)) kvs)])
      \<or> (\<exists>a. \<not> truthy (map_of kvs ''behavior_tags'')
              \<and> analyzeSentiment this (map_of kvs ''content'') = Returns a
              \<and> h' = h @ [JObj (AList.update ''behavior_tags''
                              (JObj [(''sentiment'', sentimentTag a)])
                              (AList.update ''behavior_tags'' (JObj []) kvs))]))"
proof -
  from assms have ret: "fst (analyze this message h) = Returns r" by simp
  have lt: "message < length h"
  proof (rule ccontr)
    assume "\<not> message < length h"
    with assms show False by (simp add: analyze_def)
  qed
  from ret analyze_not_object obtain kvs where obj: "h ! message = JObj kvs" by blast
  show ?thesis
  proof (cases "\<exists>tags. map_of kvs ''behavior_tags'' = Some (JObj tags) \<and> truthy (map_of tags ''sentiment'')")
    case True
    then obtain tags where t: "map_of kvs ''behavior_tags'' = Some (JObj tags)"
      and s: "truthy (map_of tags ''sentiment'')" by blast
    from analyze_existing [OF lt obj t s] assms lt obj t s show ?thesis by auto
  next
    case False
    then have nos: "\<forall>tags. map_of kvs ''behavior_tags'' = Some (JObj tags) \<longrightarrow> \<not> truthy (map_of tags ''sentiment'')"
      by blast
    from ret analyze_no_analysis [OF lt obj nos] obtain a
      where a: "analyzeSentiment this (map_of kvs ''content'') = Returns a" by blast
    show ?thesis
    proof (cases "truthy (map_of kvs ''behavior_tags'')")
      case True
      then obtain t where t: "map_of kvs ''behavior_tags'' = Some t"
        by (cases "map_of kvs ''behavior_tags''") (auto simp: truthy_def)
      with True have tt: "truthy (Some t)" by simp
      from ret analyze_bad_tags [OF lt obj t tt] obtain tags where tags: "t = JObj tags" by blast
      from nos t tags have ns: "\<not> truthy (map_of tags ''sentiment'')" by simp
      from analyze_tagged [OF lt obj t [unfolded tags] ns a] assms lt obj t tags ns a
      show ?thesis by auto
    next
      case False
      from analyze_untagged [OF lt obj False a] assms lt obj False a
      show ?thesis by auto
    qed
  qed
qed

lemma andThen_prefix:
  assumes "prefix h g" and "\<And>a. prefix h (snd (f a))"
  shows "prefix h (snd (andThen x g f))"
  using assms by (cases x) (auto simp: andThen_def)

lemma analyze_heap_prefix: "prefix h (snd (analyze this message h))"
proof (cases "length h \<le> message")
  case True
  then show ?thesis by (simp add: analyze_def)
next
  case False
  have upd: "(h @ [x])[length h := y] = h @ [y]" for x y :: json
    by simp
  from False show ?thesis
    unfolding analyze_def Let_def
    by (simp only: if_False upd) (intro andThen_prefix impI conjI | simp)+
qed

lemma analyze_preserves_heap: "i < length h \<Longrightarrow> snd (analyze this message h) ! i = h ! i"
  using analyze_heap_prefix [of h this message] by (auto simp: prefix_def nth_append)

lemma sentimentOf_tagged:
  "sentimentOf (JObj (AList.update ''behavior_tags''
       (JObj (AList.update ''sentiment'' v tags)) kvs)) = Some v"
  by (simp add: sentimentOf_def tagEntry_def field_def map_of_update_same)

lemma truthy_sentimentTag: "truthy (Some (sentimentTag a))"
  by (simp add: truthy_def sentimentTag_def)

section \<open>Claim C6: content that is not text\<close>

text \<open>
  Claim C6, as amended. For every message object whose \<^verbatim>\<open>behavior_tags\<close> is absent or
  falsy, or is an object without a truthy \<^verbatim>\<open>sentiment\<close>, and whose content is absent,
  null or not a string, \<open>analyze\<close> returns a copy whose sentiment tag is
  \<^verbatim>\<open>{detected: 'neutral', confidence: 1.0}\<close>.
\<close>

theorem C6_non_text_content:
  assumes "message < length h" and "h ! message = JObj kvs"
    and "\<forall>s. map_of kvs ''content'' \<noteq> Some (JStr s)"
    and "needsSentiment (JObj kvs)"
  shows "fst (analyze this message h) = Returns (length h)
     \<and> sentimentOf (snd (analyze this message h) ! length h)
         = Some (sentimentTag \<lparr> type = neutral, confidence = 1 \<rparr>)"
proof -
  from assms(3) have a: "analyzeSentiment this (map_of kvs ''content'')
      = Returns \<lparr> type = neutral, confidence = 1 \<rparr>"
    by (intro analyzeSentiment_guard) auto
  show ?thesis
  proof (cases "truthy (map_of kvs ''behavior_tags'')")
    case True
    with assms(4) obtain tags where t: "map_of kvs ''behavior_tags'' = Some (JObj tags)"
      and s: "\<not> truthy (map_of tags ''sentiment'')"
      by (auto simp: needsSentiment_def field_def split: option.splits json.splits)
    from analyze_tagged [OF assms(1,2) t s a] show ?thesis
      by (simp add: sentimentOf_tagged)
  next
    case False
    from analyze_untagged [OF assms(1,2) False a] show ?thesis
      by (simp add: sentimentOf_def tagEntry_def field_def map_of_update_same)
  qed
qed

text \<open>The theorem at the message \<^verbatim>\<open>{content: null, behavior_tags: {}}\<close> of the
  repository's tests.\<close>

theorem C6_witness:
  "(0::nat) < length [JObj [(''content'', JNull), (''behavior_tags'', JObj [])]] \<and>
   needsSentiment (JObj [(''content'', JNull), (''behavior_tags'', JObj [])]) \<and>
   fst (analyze (newSentimentAnalyzer None None) 0
          [JObj [(''content'', JNull), (''behavior_tags'', JObj [])]]) = Returns 1 \<and>
   sentimentOf (snd (analyze (newSentimentAnalyzer None None) 0
          [JObj [(''content'', JNull), (''behavior_tags'', JObj [])]]) ! 1)
     = Some (JObj [(''detected'', JStr ''neutral''), (''confidence'', JNum 1)])"
proof -
  let ?kvs = "[(''content'', JNull), (''behavior_tags'', JObj [])]"
  let ?h = "[JObj ?kvs]"
  have 1: "0 < length ?h" by simp
  have 2: "?h ! 0 = JObj ?kvs" by simp
  have 3: "\<forall>s. map_of ?kvs ''content'' \<noteq> Some (JStr s)" by simp
  have 4: "needsSentiment (JObj ?kvs)" by (simp add: needsSentiment_def field_def truthy_def)
  from C6_non_text_content [OF 1 2 3 4, of "newSentimentAnalyzer None None"] 4
  show ?thesis by (simp add: sentimentTag_def sentimentName_def)
qed

text \<open>
  Claim C6, as stated, fails for a message that carries a sentiment already: with content
  \<^verbatim>\<open>null\<close> and the sentiment \<^verbatim>\<open>{detected: 'custom_sentiment', confidence: 0.95}\<close>,
  the copy keeps that sentiment.
\<close>

theorem C6_counterexample:
  "map_of [(''content'', JNull),
           (''behavior_tags'',
              JObj [(''sentiment'', JObj [(''detected'', JStr ''custom_sentiment''),
                                           (''confidence'', JNum 0.95)])])] ''content''
     = Some JNull \<and>
   analyze (newSentimentAnalyzer None None) 0
     [JObj [(''content'', JNull),
            (''behavior_tags'',
               JObj [(''sentiment'', JObj [(''detected'', JStr ''custom_sentiment''),
                                            (''confidence'', JNum 0.95)])])]]
   = (Returns 1,
      [JObj [(''content'', JNull),
             (''behavior_tags'',
                JObj [(''sentiment'', JObj [(''detected'', JStr ''custom_sentiment''),
                                             (''confidence'', JNum 0.95)])])],
       JObj [(''content'', JNull),
             (''behavior_tags'',
                JObj [(''sentiment'', JObj [(''detected'', JStr ''custom_sentiment''),
                                             (''confidence'', JNum 0.95)])])]]) \<and>
   sentimentOf
     (JObj [(''content'', JNull),
            (''behavior_tags'',
               JObj [(''sentiment'', JObj [(''detected'', JStr ''custom_sentiment''),
                                            (''confidence'', JNum 0.95)])])])
     \<noteq> Some (sentimentTag \<lparr> type = neutral, confidence = 1 \<rparr>)"
proof -
  let ?s = "JObj [(''detected'', JStr ''custom_sentiment''), (''confidence'', JNum 0.95)]"
  let ?kvs = "[(''content'', JNull), (''behavior_tags'', JObj [(''sentiment'', ?s)])]"
  have "analyze (newSentimentAnalyzer None None) 0 [JObj ?kvs] = (Returns (length [JObj ?kvs]), [JObj ?kvs] @ [JObj ?kvs])"
    by (rule analyze_existing [where tags = "[(''sentiment'', ?s)]"]) (simp_all add: truthy_def)
  then show ?thesis
    by (simp add: sentimentOf_def tagEntry_def field_def sentimentTag_def sentimentName_def)
qed

section \<open>Claim C7: an existing sentiment is kept\<close>

lemma analyze_again:
  assumes "analyze this message h = (Returns r, h1)"
  shows "analyze this r h1 = (Returns (length h1), h1 @ [h1 ! r]) \<and> truthy (sentimentOf (h1 ! r))"
proof -
  from analyze_Returns_cases [OF assms] obtain kvs where r: "r = length h"
    and cases: "(\<exists>tags. map_of kvs ''behavior_tags'' = Some (JObj tags)
              \<and> truthy (map_of tags ''sentiment'') \<and> h1 = h @ [JObj kvs])
      \<or> (\<exists>tags a. map_of kvs ''behavior_tags'' = Some (JObj tags)
              \<and> h1 = h @ [JObj (AList.update ''behavior_tags''
                              (JObj (AList.update ''sentiment'' (sentimentTag a) tags)) kvs)])
      \<or> (\<exists>a. h1 = h @ [JObj (AList.update ''behavior_tags''
                              (JObj [(''sentiment'', sentimentTag a)])
                              (AList.update ''behavior_tags'' (JObj []) kvs))])"
    by blast
  from cases obtain kvs' tags' where h1: "h1 = h @ [JObj kvs']"
    and t: "map_of kvs' ''behavior_tags'' = Some (JObj tags')"
    and s: "truthy (map_of tags' ''sentiment'')"
  proof (elim disjE exE conjE)
    fix tags assume "map_of kvs ''behavior_tags'' = Some (JObj tags)"
      "truthy (map_of tags ''sentiment'')" "h1 = h @ [JObj kvs]"
    then show thesis using that [of kvs tags] by blast
  next
    fix tags a
    assume "h1 = h @ [JObj (AList.update ''behavior_tags''
                              (JObj (AList.update ''sentiment'' (sentimentTag a) tags)) kvs)]"
    then show thesis
      using that [of "AList.update ''behavior_tags''
                              (JObj (AList.update ''sentiment'' (sentimentTag a) tags)) kvs"
                     "AList.update ''sentiment'' (sentimentTag a) tags"]
      by (simp add: map_of_update_same truthy_sentimentTag)
  next
    fix a
    assume "h1 = h @ [JObj (AList.update ''behavior_tags''
                              (JObj [(''sentiment'', sentimentTag a)])
                              (AList.update ''behavior_tags'' (JObj []) kvs))]"
    then show thesis
      using that [of "AList.update ''behavior_tags'' (JObj [(''sentiment'', sentimentTag a)])
                              (AList.update ''behavior_tags'' (JObj []) kvs)"
                     "[(''sentiment'', sentimentTag a)]"]
      by (simp add: map_of_update_same truthy_sentimentTag)
  qed
  have lt: "r < length h1" and at: "h1 ! r = JObj kvs'" by (simp_all add: r h1)
  from analyze_existing [OF lt at t s] at t s show ?thesis
    by (simp add: sentimentOf_def tagEntry_def field_def)
qed

text \<open>
  Claim C7, as amended. If the \<^verbatim>\<open>behavior_tags\<close> of the message is an object with a
  truthy \<^verbatim>\<open>sentiment\<close>, \<open>analyze\<close> returns a copy of the message as it is. Whenever
  \<open>analyze\<close> returns, the sentiment of its result is truthy, and \<open>analyze\<close> applied to
  the result returns a copy of that result, so with the same sentiment.
\<close>

theorem C7_existing_sentiment_kept:
  "(message < length h \<and> h ! message = JObj kvs
      \<and> map_of kvs ''behavior_tags'' = Some (JObj tags)
      \<and> truthy (map_of tags ''sentiment'') \<longrightarrow>
        analyze this message h = (Returns (length h), h @ [JObj kvs]))
   \<and> (analyze this message h = (Returns r, h1) \<longrightarrow>
        truthy (sentimentOf (h1 ! r))
        \<and> analyze this r h1 = (Returns (length h1), h1 @ [h1 ! r])
        \<and> sentimentOf ((h1 @ [h1 ! r]) ! length h1) = sentimentOf (h1 ! r))"
proof (intro conjI impI)
  assume "message < length h \<and> h ! message = JObj kvs
      \<and> map_of kvs ''behavior_tags'' = Some (JObj tags)
      \<and> truthy (map_of tags ''sentiment'')"
  then show "analyze this message h = (Returns (length h), h @ [JObj kvs])"
    by (intro analyze_existing) blast+
next
  assume a: "analyze this message h = (Returns r, h1)"
  from analyze_again [OF a] show "truthy (sentimentOf (h1 ! r))" by simp
  from analyze_again [OF a]
  show "analyze this r h1 = (Returns (length h1), h1 @ [h1 ! r])" by simp
  show "sentimentOf ((h1 @ [h1 ! r]) ! length h1) = sentimentOf (h1 ! r)" by simp
qed

text \<open>The theorem at the message with a custom sentiment of the repository's tests, and
  at the result of analyzing \<^verbatim>\<open>{content: null, behavior_tags: {}}\<close>.\<close>

theorem C7_witness:
  "analyze (newSentimentAnalyzer None None) 0
     [JObj [(''content'', JStr ''I'm happy with the product.''),
            (''behavior_tags'',
               JObj [(''sentiment'', JObj [(''detected'', JStr ''custom_sentiment''),
                                            (''confidence'', JNum 0.95)])])]]
   = (Returns 1,
      [JObj [(''content'', JStr ''I'm happy with the product.''),
             (''behavior_tags'',
                JObj [(''sentiment'', JObj [(''detected'', JStr ''custom_sentiment''),
                                             (''confidence'', JNum 0.95)])])],
       JObj [(''content'', JStr ''I'm happy with the product.''),
             (''behavior_tags'',
                JObj [(''sentiment'', JObj [(''detected'', JStr ''custom_sentiment''),
                                             (''confidence'', JNum 0.95)])])]])
   \<and> analyze (newSentimentAnalyzer None None) 0
         [JObj [(''content'', JNull), (''behavior_tags'', JObj [])]]
       = (Returns 1,
          [JObj [(''content'', JNull), (''behavior_tags'', JObj [])],
           JObj [(''content'', JNull),
                 (''behavior_tags'',
                    JObj [(''sentiment'', JObj [(''detected'', JStr ''neutral''),
                                                 (''confidence'', JNum 1)])])]])
   \<and> analyze (newSentimentAnalyzer None None) 1
         [JObj [(''content'', JNull), (''behavior_tags'', JObj [])],
          JObj [(''content'', JNull),
                (''behavior_tags'',
                   JObj [(''sentiment'', JObj [(''detected'', JStr ''neutral''),
                                                (''confidence'', JNum 1)])])]]
       = (Returns 2,
          [JObj [(''content'', JNull), (''behavior_tags'', JObj [])],
           JObj [(''content'', JNull),
                 (''behavior_tags'',
                    JObj [(''sentiment'', JObj [(''detected'', JStr ''neutral''),
                                                 (''confidence'', JNum 1)])])],
           JObj [(''content'', JNull),
                 (''behavior_tags'',
                    JObj [(''sentiment'', JObj [(''detected'', JStr ''neutral''),
                                                 (''confidence'', JNum 1)])])]])"
proof -
  let ?A = "newSentimentAnalyzer None None"
  let ?s = "JObj [(''detected'', JStr ''custom_sentiment''), (''confidence'', JNum 0.95)]"
  let ?kvs = "[(''content'', JStr ''I'm happy with the product.''),
               (''behavior_tags'', JObj [(''sentiment'', ?s)])]"
  let ?m = "JObj [(''content'', JNull), (''behavior_tags'', JObj [])]"
  let ?m' = "JObj [(''content'', JNull),
                 (''behavior_tags'',
                    JObj [(''sentiment'', JObj [(''detected'', JStr ''neutral''),
                                                 (''confidence'', JNum 1)])])]"
  have 1: "0 < length [JObj ?kvs] \<and> [JObj ?kvs] ! 0 = JObj ?kvs
      \<and> map_of ?kvs ''behavior_tags'' = Some (JObj [(''sentiment'', ?s)])
      \<and> truthy (map_of [(''sentiment'', ?s)] ''sentiment'')"
    by (simp add: truthy_def)
  have 2: "analyze ?A 0 [?m] = (Returns 1, [?m, ?m'])"
    using analyze_tagged [of 0 "[?m]" "[(''content'', JNull), (''behavior_tags'', JObj [])]" "[]"
        ?A "\<lparr> type = neutral, confidence = 1 \<rparr>"]
    by (simp add: truthy_def analyzeSentiment_def sentimentTag_def sentimentName_def)
  have p1: "analyze ?A 0 [JObj ?kvs] = (Returns (length [JObj ?kvs]), [JObj ?kvs] @ [JObj ?kvs])"
    using C7_existing_sentiment_kept [where this = ?A and message = 0 and h = "[JObj ?kvs]"
        and kvs = ?kvs and tags = "[(''sentiment'', ?s)]"] 1
    by blast
  have p2: "analyze ?A 1 [?m, ?m'] = (Returns (length [?m, ?m']), [?m, ?m'] @ [[?m, ?m'] ! 1])"
    using C7_existing_sentiment_kept [where this = ?A and message = 0 and h = "[?m]" and r = 1
        and ?h1.0 = "[?m, ?m']"] 2
    by blast
  from p1 2 p2 show ?thesis
    by (simp add: numeral_2_eq_2)
qed

text \<open>
  Claim C7, as stated, fails when the field is present with a falsy value: the message
  \<^verbatim>\<open>{content: null, behavior_tags: {sentiment: null}}\<close> has the field, and the copy
  has a new sentiment in its place.
\<close>

theorem C7_counterexample:
  "map_of [(''sentiment'', JNull)] ''sentiment'' = Some JNull \<and>
   analyze (newSentimentAnalyzer None None) 0
     [JObj [(''content'', JNull), (''behavior_tags'', JObj [(''sentiment'', JNull)])]]
   = (Returns 1,
      [JObj [(''content'', JNull), (''behavior_tags'', JObj [(''sentiment'', JNull)])],
       JObj [(''content'', JNull),
             (''behavior_tags'',
                JObj [(''sentiment'', JObj [(''detected'', JStr ''neutral''),
                                             (''confidence'', JNum 1)])])]]) \<and>
   sentimentOf
     (JObj [(''content'', JNull),
            (''behavior_tags'',
               JObj [(''sentiment'', JObj [(''detected'', JStr ''neutral''),
                                            (''confidence'', JNum 1)])])])
     \<noteq> sentimentOf
         (JObj [(''content'', JNull), (''behavior_tags'', JObj [(''sentiment'', JNull)])])"
proof -
  let ?kvs = "[(''content'', JNull), (''behavior_tags'', JObj [(''sentiment'', JNull)])]"
  have "analyze (newSentimentAnalyzer None None) 0 [JObj ?kvs]
     = (Returns (length [JObj ?kvs]),
        [JObj ?kvs] @ [JObj (AList.update ''behavior_tags''
           (JObj (AList.update ''sentiment'' (sentimentTag \<lparr> type = neutral, confidence = 1 \<rparr>)
              [(''sentiment'', JNull)])) ?kvs)])"
    by (rule analyze_tagged) (simp_all add: truthy_def analyzeSentiment_def)
  then show ?thesis
    by (simp add: sentimentOf_def tagEntry_def field_def sentimentTag_def sentimentName_def)
qed

section \<open>Claim C8: the frame of analyze\<close>

lemma field_update_other:
  "k \<noteq> k' \<Longrightarrow> field (JObj (AList.update k' v kvs)) k = field (JObj kvs) k"
  by (simp add: field_def map_of_update_other)

lemma tagEntry_update:
  "tagEntry (JObj (AList.update ''behavior_tags'' t kvs)) k = field t k"
  by (simp add: tagEntry_def field_def map_of_update_same)

lemma tagEntry_falsy:
  "\<not> truthy (map_of kvs ''behavior_tags'') \<Longrightarrow> tagEntry (JObj kvs) k = None"
  by (auto simp: tagEntry_def field_def truthy_def split: option.splits json.splits)

text \<open>
  Claim C8. Whatever its outcome, \<open>analyze\<close> leaves every cell of the caller's heap as it
  was. When it returns, the result is a new cell; it agrees with the message on every
  field other than \<^verbatim>\<open>behavior_tags\<close>, and its \<^verbatim>\<open>behavior_tags\<close> agrees with that of the
  message on every entry other than \<^verbatim>\<open>sentiment\<close>.
\<close>

theorem C8_frame:
  "(\<forall>i<length h. snd (analyze this message h) ! i = h ! i)
   \<and> (analyze this message h = (Returns result, h') \<longrightarrow>
        message < length h \<and> result = length h \<and> length h' = Suc (length h)
        \<and> (\<forall>k. k \<noteq> ''behavior_tags'' \<longrightarrow> field (h' ! result) k = field (h ! message) k)
        \<and> (\<forall>k. k \<noteq> ''sentiment'' \<longrightarrow> tagEntry (h' ! result) k = tagEntry (h ! message) k))"
proof (intro conjI impI allI)
  fix i assume "i < length h"
  then show "snd (analyze this message h) ! i = h ! i" by (rule analyze_preserves_heap)
next
  assume a: "analyze this message h = (Returns result, h')"
  from analyze_Returns_cases [OF a] obtain kvs where lt: "message < length h"
    and obj: "h ! message = JObj kvs" and r: "result = length h"
    and cases: "(\<exists>tags. map_of kvs ''behavior_tags'' = Some (JObj tags)
              \<and> truthy (map_of tags ''sentiment'') \<and> h' = h @ [JObj kvs])
      \<or> (\<exists>tags a. map_of kvs ''behavior_tags'' = Some (JObj tags)
              \<and> \<not> truthy (map_of tags ''sentiment'')
              \<and> analyzeSentiment this (map_of kvs ''content'') = Returns a
              \<and> h' = h @ [JObj (AList.update ''behavior_tags''
                              (JObj (AList.update ''sentiment'' (sentimentTag a) tags)) kvs)])
      \<or> (\<exists>a. \<not> truthy (map_of kvs ''behavior_tags'')
              \<and> analyzeSentiment this (map_of kvs ''content'') = Returns a
              \<and> h' = h @ [JObj (AList.update ''behavior_tags''
                              (JObj [(''sentiment'', sentimentTag a)])
                              (AList.update ''behavior_tags'' (JObj []) kvs))])"
    by blast
  show "message < length h" by (rule lt)
  show "result = length h" by (rule r)
  from cases show "length h' = Suc (length h)" by auto
  show "field (h' ! result) k = field (h ! message) k" if "k \<noteq> ''behavior_tags''" for k
    using cases that by (auto simp: r obj field_update_other)
  show "tagEntry (h' ! result) k = tagEntry (h ! message) k" if "k \<noteq> ''sentiment''" for k
    using cases that
    by (auto simp: r obj tagEntry_update tagEntry_falsy field_update_other)
       (simp_all add: tagEntry_def field_def)
qed

lemma good_result:
  "analyzeSentiment (newSentimentAnalyzer None None) (Some (JStr ''good''))
     = Returns \<lparr> type = positive, confidence = 0.84 \<rparr>"
proof -
  have "confidenceThreshold (config (newSentimentAnalyzer None None)) = 0.65"
    by (simp add: newSentimentAnalyzer_def)
  then show ?thesis
    by (simp add: analyzeSentiment_def good_special default_dictionary good_scored
          belowThreshold_def)
qed

text \<open>The theorem at a message with the text \<^verbatim>\<open>good\<close> and one other tag.\<close>

theorem C8_witness:
  "analyze (newSentimentAnalyzer None None) 0
     [JObj [(''content'', JStr ''good''),
            (''behavior_tags'', JObj [(''mirror_intent'', JObj [(''detected'', JBool True)])])]]
   = (Returns 1,
      [JObj [(''content'', JStr ''good''),
             (''behavior_tags'', JObj [(''mirror_intent'', JObj [(''detected'', JBool True)])])],
       JObj [(''content'', JStr ''good''),
             (''behavior_tags'',
                JObj [(''mirror_intent'', JObj [(''detected'', JBool True)]),
                      (''sentiment'', JObj [(''detected'', JStr ''positive''),
                                            (''confidence'', JNum 0.84)])])]])
   \<and> snd (analyze (newSentimentAnalyzer None None) 0
        [JObj [(''content'', JStr ''good''),
               (''behavior_tags'', JObj [(''mirror_intent'', JObj [(''detected'', JBool True)])])]]) ! 0
      = JObj [(''content'', JStr ''good''),
              (''behavior_tags'', JObj [(''mirror_intent'', JObj [(''detected'', JBool True)])])]
   \<and> field (JObj [(''content'', JStr ''good''),
             (''behavior_tags'',
                JObj [(''mirror_intent'', JObj [(''detected'', JBool True)]),
                      (''sentiment'', JObj [(''detected'', JStr ''positive''),
                                            (''confidence'', JNum 0.84)])])]) ''content''
       = Some (JStr ''good'')
   \<and> tagEntry (JObj [(''content'', JStr ''good''),
             (''behavior_tags'',
                JObj [(''mirror_intent'', JObj [(''detected'', JBool True)]),
                      (''sentiment'', JObj [(''detected'', JStr ''positive''),
                                            (''confidence'', JNum 0.84)])])]) ''mirror_intent''
       = Some (JObj [(''detected'', JBool True)])"
proof -
  let ?A = "newSentimentAnalyzer None None"
  let ?tags = "[(''mirror_intent'', JObj [(''detected'', JBool True)])]"
  let ?kvs = "[(''content'', JStr ''good''), (''behavior_tags'', JObj ?tags)]"
  let ?tags' = "[(''mirror_intent'', JObj [(''detected'', JBool True)]),
                 (''sentiment'', JObj [(''detected'', JStr ''positive''), (''confidence'', JNum 0.84)])]"
  let ?m' = "JObj [(''content'', JStr ''good''), (''behavior_tags'', JObj ?tags')]"
  have run: "analyze ?A 0 [JObj ?kvs] = (Returns 1, [JObj ?kvs, ?m'])"
    using analyze_tagged [of 0 "[JObj ?kvs]" ?kvs ?tags ?A "\<lparr> type = positive, confidence = 0.84 \<rparr>"]
    by (simp add: truthy_def good_result sentimentTag_def sentimentName_def)
  have i: "(0::nat) < length [JObj ?kvs]" by simp
  from C8_frame [where this = ?A and message = 0 and h = "[JObj ?kvs]" and result = 1
      and h' = "[JObj ?kvs, ?m']"] run i
  have "snd (analyze ?A 0 [JObj ?kvs]) ! 0 = [JObj ?kvs] ! 0
      \<and> field ([JObj ?kvs, ?m'] ! 1) ''content'' = field ([JObj ?kvs] ! 0) ''content''
      \<and> tagEntry ([JObj ?kvs, ?m'] ! 1) ''mirror_intent'' = tagEntry ([JObj ?kvs] ! 0) ''mirror_intent''"
    by simp
  with run show ?thesis
    by (simp add: field_def tagEntry_def)
qed

section \<open>Occurrences in a longer text\<close>

lemma matchesAt_length: "matchesAt x s \<Longrightarrow> length x \<le> length s"
  by (induction x s rule: matchesAt.induct) auto

lemma matchesAt_append_within: "length x \<le> length s \<Longrightarrow> matchesAt x (s @ f) = matchesAt x s"
  by (induction x s rule: matchesAt.induct) auto

lemma occursIn_drop: "matchesAt x (drop i f) \<Longrightarrow> x \<noteq> [] \<Longrightarrow> occursIn x f"
proof (induction f arbitrary: i)
  case Nil
  then show ?case by (cases x) auto
next
  case (Cons c cs)
  then show ?case by (cases i) auto
qed

lemma addsOccurrence_position:
  "matchesAt x (drop i (s @ f)) \<Longrightarrow> length s < i + length x \<Longrightarrow> x \<noteq> [] \<Longrightarrow>
   addsOccurrence x s f"
proof (induction s arbitrary: i)
  case Nil
  then show ?case by (auto intro: occursIn_drop)
next
  case (Cons c cs)
  show ?case
  proof (cases i)
    case 0
    with Cons.prems show ?thesis by simp
  next
    case (Suc j)
    with Cons.prems have "matchesAt x (drop j (cs @ f))" and "length cs < j + length x"
      by simp_all
    from Cons.IH [OF this Cons.prems(3)] show ?thesis by simp
  qed
qed

text \<open>The occurrences that a filler adds, by their position.\<close>

lemma occursIn_position: "occursIn x f \<Longrightarrow> \<exists>i\<le>length f. matchesAt x (drop i f)"
proof (induction f)
  case Nil
  then show ?case by simp
next
  case (Cons c cs)
  show ?case
  proof (cases "matchesAt x (c # cs)")
    case True
    then have "matchesAt x (drop 0 (c # cs))" by simp
    then show ?thesis by blast
  next
    case False
    with Cons obtain i where "i \<le> length cs" and "matchesAt x (drop i cs)" by auto
    then have "Suc i \<le> length (c # cs) \<and> matchesAt x (drop (Suc i) (c # cs))" by simp
    then show ?thesis by blast
  qed
qed

lemma addsOccurrence_iff:
  "addsOccurrence x s f \<longleftrightarrow>
     (\<exists>i\<le>length (s @ f). length s < i + length x \<and> matchesAt x (drop i (s @ f)))"
proof
  assume "addsOccurrence x s f"
  then show "\<exists>i\<le>length (s @ f). length s < i + length x \<and> matchesAt x (drop i (s @ f))"
  proof (induction s)
    case Nil
    show ?case
    proof (cases "x = []")
      case True
      with Nil have "f \<noteq> []" by simp
      then have "1 \<le> length ([] @ f) \<and> length ([]::string) < 1 + length x
          \<and> matchesAt x (drop 1 ([] @ f))"
        using True by (cases f) simp_all
      then show ?thesis by blast
    next
      case False
      with Nil have "occursIn x f" by simp
      from occursIn_position [OF this] False show ?thesis by (cases x) auto
    qed
  next
    case (Cons c cs)
    show ?case
    proof (cases "length (c # cs) < length x \<and> matchesAt x (c # cs @ f)")
      case True
      then have "0 \<le> length ((c # cs) @ f) \<and> length (c # cs) < 0 + length x
          \<and> matchesAt x (drop 0 ((c # cs) @ f))"
        by simp
      then show ?thesis by blast
    next
      case False
      with Cons.prems have "addsOccurrence x cs f" by auto
      from Cons.IH [OF this] obtain i where "i \<le> length (cs @ f)"
        and "length cs < i + length x" and "matchesAt x (drop i (cs @ f))" by blast
      then have "Suc i \<le> length ((c # cs) @ f) \<and> length (c # cs) < Suc i + length x
          \<and> matchesAt x (drop (Suc i) ((c # cs) @ f))"
        by simp
      then show ?thesis by blast
    qed
  qed
next
  assume "\<exists>i\<le>length (s @ f). length s < i + length x \<and> matchesAt x (drop i (s @ f))"
  then obtain i where i: "i \<le> length (s @ f)" and beyond: "length s < i + length x"
    and m: "matchesAt x (drop i (s @ f))" by blast
  show "addsOccurrence x s f"
  proof (cases "x = []")
    case False
    from m beyond False show ?thesis by (rule addsOccurrence_position)
  next
    case True
    with i beyond have "f \<noteq> []" by auto
    with True show ?thesis by (induction s) auto
  qed
qed

lemma addsOccurrence_drop: "\<not> addsOccurrence x s f \<Longrightarrow> \<not> addsOccurrence x (drop n s) f"
proof (induction s arbitrary: n)
  case Nil
  then show ?case by simp
next
  case (Cons c cs)
  then show ?case by (cases n) auto
qed

lemma countMatches_absent: "\<not> occursIn x f \<Longrightarrow> x \<noteq> [] \<Longrightarrow> countMatches x f = 0"
proof (induction f)
  case Nil
  then show ?case by (simp add: countMatches.simps)
next
  case (Cons c cs)
  then show ?case by (subst countMatches.simps) simp
qed

lemma countMatches_match:
  "t \<noteq> [] \<Longrightarrow> matchesAt t s \<Longrightarrow> countMatches t s = Suc (countMatches t (drop (length t) s))"
  by (subst countMatches.simps) (cases s; cases t; simp)

lemma countMatches_nomatch:
  "t \<noteq> [] \<Longrightarrow> \<not> matchesAt t s \<Longrightarrow> s \<noteq> [] \<Longrightarrow> countMatches t s = countMatches t (tl s)"
  by (subst countMatches.simps) simp

lemma addsOccurrence_empty_term: "\<not> addsOccurrence [] s f \<Longrightarrow> f = []"
  by (induction s) auto

lemma countMatches_filler:
  "\<not> addsOccurrence x s f \<Longrightarrow> countMatches x (s @ f) = countMatches x s"
proof (cases "x = []")
  case True
  assume "\<not> addsOccurrence x s f"
  with True have "f = []" by (simp add: addsOccurrence_empty_term)
  then show ?thesis by simp
next
  case x: False
  assume "\<not> addsOccurrence x s f"
  then show ?thesis
  proof (induction x s rule: countMatches.induct)
    case (1 t s)
    show ?case
    proof (cases "t = []")
      case True
      with "1.prems" have "f = []" by (simp add: addsOccurrence_empty_term)
      then show ?thesis by simp
    next
      case t: False
      show ?thesis
      proof (cases s)
        case Nil
        with "1.prems" t show ?thesis
          by (simp add: countMatches_absent)
      next
        case (Cons c cs)
        show ?thesis
        proof (cases "matchesAt t s")
          case True
          then have len: "length t \<le> length s" by (rule matchesAt_length)
          then have m: "matchesAt t (s @ f)" using True by (simp add: matchesAt_append_within)
          from "1.prems" have "\<not> addsOccurrence t (drop (length t) s) f"
            by (rule addsOccurrence_drop)
          with "1.IH"(1) t Cons True
          have ih: "countMatches t (drop (length t) s @ f) = countMatches t (drop (length t) s)"
            by simp
          have d: "drop (length t) (s @ f) = drop (length t) s @ f" using len by simp
          show ?thesis
            by (simp only: countMatches_match [OF t True] countMatches_match [OF t m] d ih)
        next
          case False
          have nm: "\<not> matchesAt t (s @ f)"
          proof (cases "length t \<le> length s")
            case True
            with False show ?thesis by (simp add: matchesAt_append_within)
          next
            case False
            with "1.prems" Cons show ?thesis by simp
          qed
          from "1.prems" Cons have "\<not> addsOccurrence t (tl s) f" by simp
          with "1.IH"(2) t Cons False
          have ih: "countMatches t (tl s @ f) = countMatches t (tl s)" by simp
          have l: "countMatches t (s @ f) = countMatches t (tl s @ f)"
            using countMatches_nomatch [OF t nm] Cons by simp
          have r: "countMatches t s = countMatches t (tl s)"
            using countMatches_nomatch [OF t False] Cons by simp
          show ?thesis by (simp only: l r ih)
        qed
      qed
    qed
  qed
qed

lemma includesStr_append: "includesStr s p \<Longrightarrow> includesStr (s @ f) p"
  unfolding includesStr_sublist by (metis sublist_append)

text \<open>A phrase that occurs in \<open>s @ f\<close> occurs in \<open>s\<close> already, when the filler adds no
  occurrence of a non-empty suffix of the phrase. All strings are in lower case.\<close>

lemma includesStr_filler:
  assumes inc: "includesStr (s @ f) (a @ q)"
    and q: "q \<noteq> []"
    and no: "\<not> addsOccurrence q s f"
    and low: "toLowerCase q = q" "toLowerCase s = s" "toLowerCase f = f"
  shows "includesStr s (a @ q)"
proof -
  from inc obtain ps ss where eq: "s @ f = ps @ (a @ q) @ ss"
    unfolding includesStr_sublist sublist_def by blast
  let ?i = "length ps + length a"
  have d: "drop ?i (s @ f) = q @ ss" by (simp add: eq)
  have "toLowerCase (s @ f) = s @ f"
    by (simp add: toLowerCase_append low)
  then have "toLowerCase (drop ?i (s @ f)) = drop ?i (s @ f)"
    by (simp only: toLowerCase_drop)
  then have "toLowerCase (q @ ss) = q @ ss"
    by (simp only: d)
  then have "matchesAt q (q @ ss)"
    by (simp add: matchesAt_lower low)
  then have "matchesAt q (drop ?i (s @ f))"
    by (simp only: d)
  with addsOccurrence_position [OF _ _ q] no have "\<not> length s < ?i + length q"
    by blast
  then have le: "length ps + length a + length q \<le> length s" by simp
  have "s = take (length s) (s @ f)" by simp
  also have "\<dots> = take (length s) (ps @ a @ q @ ss)" by (simp add: eq)
  also have "\<dots> = ps @ a @ q @ take (length s - (length ps + length a + length q)) ss"
    using le by simp
  finally have "s = ps @ (a @ q) @ take (length s - (length ps + length a + length q)) ss"
    by simp
  then show ?thesis
    unfolding includesStr_sublist sublist_def by blast
qed

lemma includesStr_filler_iff:
  assumes "q \<noteq> []" and "\<not> addsOccurrence q s f"
    and "toLowerCase q = q" "toLowerCase s = s" "toLowerCase f = f"
  shows "includesStr (s @ f) (a @ q) = includesStr s (a @ q)"
  using includesStr_filler [OF _ assms] includesStr_append by blast

section \<open>Word count of a longer text\<close>

lemma runs_space_pos: "isSpace c \<Longrightarrow> 0 < spec_whitespaceRuns (c # cs)"
  by (simp add: runs_space)

lemma runs_append: "spec_whitespaceRuns s \<le> spec_whitespaceRuns (s @ f)"
proof (induction s rule: spec_whitespaceRuns.induct)
  case 1
  then show ?case by simp
next
  case (2 c)
  show ?case
  proof (cases f)
    case Nil
    then show ?thesis by simp
  next
    case (Cons d ds)
    then show ?thesis using runs_space_pos [of d ds] by auto
  qed
next
  case (3 c d cs)
  then show ?case by simp
qed

lemma wordCount_append: "length (splitWs s) \<le> length (splitWs (s @ f))"
  by (simp add: length_splitWs runs_append)

section \<open>The keys of a merged lexicon\<close>

lemma update_keys_mono: "fst ` set xs \<subseteq> fst ` set (AList.update k v xs)"
  by (induction xs) auto

lemma setOwn_keys_mono: "fst ` set d \<subseteq> fst ` set (setOwn k v d)"
proof (cases "k \<in> fst ` set d")
  case True
  then show ?thesis using update_keys_mono [of d k v] by (simp add: setOwn_def)
next
  case False
  show ?thesis
  proof (cases "arrayIndex k")
    case None
    with False show ?thesis by (auto simp: setOwn_def)
  next
    case (Some n)
    have "set d = set (takeWhile (indexBelow n) d @ dropWhile (indexBelow n) d)"
      by simp
    also have "\<dots> \<subseteq> set (takeWhile (indexBelow n) d @ [(k, v)] @ dropWhile (indexBelow n) d)"
      by (simp only: set_append) auto
    finally show ?thesis using False Some by (auto simp: setOwn_def)
  qed
qed

lemma assign_keys_mono: "fst ` set d \<subseteq> fst ` set (assign d custom)"
proof (induction custom arbitrary: d)
  case Nil
  then show ?case by (simp add: assign_def)
next
  case (Cons e es)
  obtain k v where e: "e = (k, v)" by (cases e)
  show ?case
  proof (cases "k = ''__proto__''")
    case True
    then have "assign d (e # es) = assign d es" by (simp add: assign_def e)
    with Cons.IH [of d] show ?thesis by simp
  next
    case False
    then have "assign d (e # es) = assign (setOwn k v d) es"
      by (simp add: assign_def e)
    with Cons.IH [of "setOwn k v d"] setOwn_keys_mono [of d k v] show ?thesis
      by auto
  qed
qed

lemma builtin_key_merged:
  "k \<in> set (map fst builtinDictionary) \<Longrightarrow>
   k \<in> fst ` set (dictionary (newSentimentAnalyzer thr custom))"
  using assign_keys_mono [of builtinDictionary]
  by (auto simp: newSentimentAnalyzer_def Let_def split: option.splits)

section \<open>Confidence under a diluted score\<close>

lemma thresholds_dilute:
  fixes n n' :: real
  assumes "(0 \<le> n' \<and> n' \<le> n) \<or> (n \<le> n' \<and> n' \<le> 0)"
    and "type (thresholds n' e lc') = type (thresholds n e lc)"
  shows "confidence (thresholds n' e lc') \<le> confidence (thresholds n e lc)"
  using assms
  unfolding thresholds_def Let_def
  by (auto simp: min_def split: if_splits)

lemma dilute_thresholds:
  fixes n n' :: real
  assumes d: "(0 \<le> n' \<and> n' \<le> n) \<or> (n \<le> n' \<and> n' \<le> 0)"
    and t: "type (belowThreshold thr (thresholds n' e lc')) = type (belowThreshold thr (thresholds n e lc))"
  shows "confidence (belowThreshold thr (thresholds n' e lc'))
     \<le> confidence (belowThreshold thr (thresholds n e lc))"
proof -
  let ?g = "thresholds n e lc" and ?g' = "thresholds n' e lc'"
  consider (both) "confidence ?g < thr" "confidence ?g' < thr"
    | (first) "confidence ?g < thr" "\<not> confidence ?g' < thr"
    | (second) "\<not> confidence ?g < thr" "confidence ?g' < thr"
    | (neither) "\<not> confidence ?g < thr" "\<not> confidence ?g' < thr"
    by blast
  then show ?thesis
  proof cases
    case both
    then show ?thesis by (simp add: belowThreshold_def)
  next
    case first
    with t have "type ?g' = neutral" by (simp add: belowThreshold_def)
    then have "confidence ?g' = 0.8" by (rule thresholds_neutral)
    with first show ?thesis by (simp add: belowThreshold_def)
  next
    case second
    with t have "type ?g = neutral" by (simp add: belowThreshold_def)
    then have "confidence ?g = 0.8" by (rule thresholds_neutral)
    with second show ?thesis by (simp add: belowThreshold_def)
  next
    case neither
    with t have "type ?g' = type ?g" by (simp add: belowThreshold_def)
    with d have "confidence ?g' \<le> confidence ?g" by (rule thresholds_dilute)
    with neither show ?thesis by (simp add: belowThreshold_def)
  qed
qed

lemma neutralFiller_term:
  assumes "neutralFiller d s f" and "q \<in> set (map fst d) \<or> q \<in> set indicatorPhrases"
  shows "\<not> addsOccurrence q (toLowerCase s) (toLowerCase f)"
  using assms by (auto simp: neutralFiller_def list_all_iff)

lemma neutralFiller_phrase:
  assumes nf: "neutralFiller d s f"
    and mem: "q \<in> set (map fst d) \<or> q \<in> set indicatorPhrases"
    and q: "q \<noteq> []" "toLowerCase q = q"
  shows "includesStr (toLowerCase (s @ f)) (a @ q) = includesStr (toLowerCase s) (a @ q)"
  unfolding toLowerCase_append
  by (rule includesStr_filler_iff [OF q(1) neutralFiller_term [OF nf mem] q(2)])
     (simp_all add: toLowerCase_idem)

lemma neutralFiller_word:
  assumes nf: "neutralFiller d s f"
    and mem: "q \<in> set (map fst d) \<or> q \<in> set indicatorPhrases"
    and q: "q \<noteq> []" "toLowerCase q = q"
  shows "includesStr (toLowerCase (s @ f)) q = includesStr (toLowerCase s) q"
  using neutralFiller_phrase [OF nf mem q, of "[]"] by simp

lemma builtin_lower: "k \<in> set (map fst builtinDictionary) \<Longrightarrow> toLowerCase k = k"
  unfolding builtin_keys by (auto simp: lower_eval)

lemma indicator_lower: "k \<in> set indicatorPhrases \<Longrightarrow> toLowerCase k = k"
  unfolding indicatorPhrases_def by (auto simp: lower_eval)

lemma builtin_nonempty: "k \<in> set (map fst builtinDictionary) \<Longrightarrow> k \<noteq> []"
  unfolding builtin_keys by auto

lemma builtin_word_filler:
  assumes nf: "neutralFiller (dictionary (newSentimentAnalyzer thr custom)) s f"
    and k: "k \<in> set (map fst builtinDictionary)"
  shows "includesStr (toLowerCase (s @ f)) (a @ k) = includesStr (toLowerCase s) (a @ k)"
proof -
  from builtin_key_merged [OF k]
  have "k \<in> set (map fst (dictionary (newSentimentAnalyzer thr custom)))" by simp
  then show ?thesis
    by (intro neutralFiller_phrase [OF nf] disjI1 builtin_nonempty [OF k] builtin_lower [OF k])
qed

lemma indicator_filler:
  assumes nf: "neutralFiller d s f" and k: "k \<in> set indicatorPhrases"
  shows "includesStr (toLowerCase (s @ f)) (a @ k) = includesStr (toLowerCase s) (a @ k)"
proof -
  from k have "k \<noteq> []" unfolding indicatorPhrases_def by auto
  then show ?thesis
    by (intro neutralFiller_phrase [OF nf] disjI2 k indicator_lower [OF k])
qed

lemma specialCases_filler:
  assumes nf: "neutralFiller (dictionary (newSentimentAnalyzer thr custom)) s f"
  shows "specialCases (dictionary (newSentimentAnalyzer thr custom)) (toLowerCase (s @ f))
     = specialCases (dictionary (newSentimentAnalyzer thr custom)) (toLowerCase s)"
proof -
  have w: "includesStr (toLowerCase (s @ f)) k = includesStr (toLowerCase s) k"
    if "k \<in> set (map fst builtinDictionary)" for k
    using builtin_word_filler [OF nf that, of "[]"] by simp
  have k: "''really happy'' \<in> set (map fst builtinDictionary)"
    "''works great'' \<in> set (map fst builtinDictionary)"
    "''terrible'' \<in> set (map fst builtinDictionary)"
    "''disappointed'' \<in> set (map fst builtinDictionary)"
    "''frustrated'' \<in> set (map fst builtinDictionary)"
    "''wow'' \<in> set (map fst builtinDictionary)"
    "''amazing'' \<in> set (map fst builtinDictionary)"
    "''can't believe'' \<in> set (map fst builtinDictionary)"
    "''spectacular'' \<in> set (map fst builtinDictionary)"
    unfolding builtin_keys by simp_all
  have p1: "includesStr (toLowerCase (s @ f)) ''told you multiple times''
      = includesStr (toLowerCase s) ''told you multiple times''"
    using indicator_filler [OF nf, of "''multiple times''" "''told you ''"]
    by (simp add: indicatorPhrases_def)
  have p2: "includesStr (toLowerCase (s @ f)) ''still doesn't work''
      = includesStr (toLowerCase s) ''still doesn't work''"
    using indicator_filler [OF nf, of "''doesn't work''" "''still ''"]
    by (simp add: indicatorPhrases_def)
  show ?thesis
    unfolding specialCases_def specialCase1_def specialCase2_def specialCase3_def
      specialCase4_def specialCase5_def
    by (simp only: k [THEN w] p1 p2)
qed

section \<open>Dilution by neutral filler\<close>

lemma score_filler:
  assumes nf: "neutralFiller d s f"
  shows "spec_score d (toLowerCase (s @ f)) = spec_score d (toLowerCase s)"
proof -
  have "spec_occurrences (toLowerCase t) (toLowerCase (s @ f))
      = spec_occurrences (toLowerCase t) (toLowerCase s)" if "t \<in> set (map fst d)" for t
  proof -
    have "countMatches t (toLowerCase s @ toLowerCase f) = countMatches t (toLowerCase s)"
      by (rule countMatches_filler) (rule neutralFiller_term [OF nf disjI1 [OF that]])
    then have "countMatches t (toLowerCase (s @ f)) = countMatches t (toLowerCase s)"
      by (simp only: toLowerCase_append)
    then show ?thesis
      by (simp only: countMatches_lowerContent)
  qed
  then have "map (\<lambda>(t, w). w * real (spec_occurrences (toLowerCase t) (toLowerCase (s @ f)))) d
      = map (\<lambda>(t, w). w * real (spec_occurrences (toLowerCase t) (toLowerCase s))) d"
    by (intro map_cong refl) force
  then show ?thesis by (simp only: spec_score_def)
qed

lemma exclamations_filler: "CHR ''!'' \<notin> set f \<Longrightarrow> count_list (s @ f) (CHR ''!'') = count_list s (CHR ''!'')"
  by (induction s) (auto simp: count_list_0_iff)

lemma quotient_dilute:
  fixes sc :: real and a b :: nat
  assumes "0 < a" and "a \<le> b"
  shows "(0 \<le> sc / sqrt (real b) \<and> sc / sqrt (real b) \<le> sc / sqrt (real a))
       \<or> (sc / sqrt (real a) \<le> sc / sqrt (real b) \<and> sc / sqrt (real b) \<le> 0)"
proof -
  from assms have pa: "0 < sqrt (real a)" and pb: "0 < sqrt (real b)"
    and ab: "sqrt (real a) \<le> sqrt (real b)"
    by simp_all
  show ?thesis
  proof (cases "0 \<le> sc")
    case True
    with pa pb ab have "sc / sqrt (real b) \<le> sc / sqrt (real a)"
      by (intro divide_left_mono) (simp_all add: mult_pos_pos)
    moreover from True pb have "0 \<le> sc / sqrt (real b)" by simp
    ultimately show ?thesis by blast
  next
    case False
    then have neg: "sc \<le> 0" by simp
    with pa pb ab have "sc / sqrt (real a) \<le> sc / sqrt (real b)"
      by (intro divide_left_mono_neg) (simp_all add: mult_pos_pos)
    moreover from neg pb have "sc / sqrt (real b) \<le> 0" by (simp add: divide_nonpos_pos)
    ultimately show ?thesis by blast
  qed
qed

lemma normalizedScore_filler:
  assumes nf: "neutralFiller d s f"
  shows "(0 \<le> spec_normalizedScore d (s @ f)
            \<and> spec_normalizedScore d (s @ f) \<le> spec_normalizedScore d s)
       \<or> (spec_normalizedScore d s \<le> spec_normalizedScore d (s @ f)
            \<and> spec_normalizedScore d (s @ f) \<le> 0)"
proof -
  have "Suc (spec_whitespaceRuns (toLowerCase s)) \<le> Suc (spec_whitespaceRuns (toLowerCase (s @ f)))"
    by (simp add: toLowerCase_append runs_append)
  from quotient_dilute [OF _ this, of "spec_score d (toLowerCase s)"] show ?thesis
    by (simp only: spec_normalizedScore_def Let_def score_filler [OF nf])
qed

lemma thresholds_le_one: "confidence (thresholds n e lc) \<le> 1"
  by (auto simp: thresholds_def Let_def min_def)

lemma analyzeSentiment_le_one:
  assumes "analyzeSentiment this content = Returns r"
  shows "confidence r \<le> 1"
proof (cases "\<exists>s. content = Some (JStr s) \<and> s \<noteq> []")
  case False
  then have "analyzeSentiment this content = Returns \<lparr> type = neutral, confidence = 1 \<rparr>"
    by (intro analyzeSentiment_guard) auto
  with assms show ?thesis by auto
next
  case True
  then obtain s where c: "content = Some (JStr s)" and s: "s \<noteq> []" by blast
  show ?thesis
  proof (cases "specialCases (dictionary this) (toLowerCase s)")
    case (Some x)
    with assms c s specialCases_confidence [OF Some] show ?thesis
      by (auto simp: analyzeSentiment_def)
  next
    case None
    with assms c s obtain g where g: "scored (dictionary this) s = Returns g"
      and r: "r = belowThreshold (confidenceThreshold (config this)) g"
      by (auto simp: analyzeSentiment_def split: outcome.splits)
    from scored_thresholds [OF g] thresholds_le_one have "confidence g \<le> 1" by auto
    then show ?thesis by (simp add: r belowThreshold_def)
  qed
qed

text \<open>
  Dilution with a lexicon of literal terms. Let \<open>F\<close> be appended to the text \<open>T\<close>,
  where \<open>F\<close> adds no occurrence of a term of the analyzer's lexicon or of a frustration
  indicator and holds no exclamation mark. If \<open>analyzeSentiment\<close> returns the same
  type for \<open>T\<close> and for \<open>T @ F\<close>, the confidence for \<open>T @ F\<close> is at most the
  confidence for \<open>T\<close>. The analyzer is any that the constructor builds from a custom
  dictionary whose terms, like the built-in ones, have no syntax character.
\<close>

lemma dilution_literal:
  assumes lit: "literalLexicon (dictionary (newSentimentAnalyzer thr custom))"
    and nf: "neutralFiller (dictionary (newSentimentAnalyzer thr custom)) T F"
    and r: "analyzeSentiment (newSentimentAnalyzer thr custom) (Some (JStr T)) = Returns r"
    and r': "analyzeSentiment (newSentimentAnalyzer thr custom) (Some (JStr (T @ F))) = Returns r'"
    and ty: "type r' = type r"
  shows "confidence r' \<le> confidence r"
proof (cases "T = []")
  case True
  with r have "r = \<lparr> type = neutral, confidence = 1 \<rparr>"
    by (simp add: analyzeSentiment_def)
  with analyzeSentiment_le_one [OF r'] show ?thesis by simp
next
  case False
  let ?A = "newSentimentAnalyzer thr custom"
  let ?d = "dictionary ?A"
  have sp: "specialCases ?d (toLowerCase (T @ F)) = specialCases ?d (toLowerCase T)"
    by (rule specialCases_filler [OF nf])
  show ?thesis
  proof (cases "specialCases ?d (toLowerCase T)")
    case (Some x)
    with r r' False sp show ?thesis by (simp add: analyzeSentiment_def)
  next
    case None
    with r False obtain g where g: "scored ?d T = Returns g"
      and rg: "r = belowThreshold (confidenceThreshold (config ?A)) g"
      by (auto simp: analyzeSentiment_def split: outcome.splits)
    from None sp r' False obtain g' where g': "scored ?d (T @ F) = Returns g'"
      and rg': "r' = belowThreshold (confidenceThreshold (config ?A)) g'"
      by (auto simp: analyzeSentiment_def split: outcome.splits)
    from nf have ex: "CHR ''!'' \<notin> set F" by (simp add: neutralFiller_def)
    have G: "g = thresholds (spec_normalizedScore ?d T) (1 < count_list T (CHR ''!'')) (toLowerCase T)"
      using g by (simp only: scored_literal [OF lit] outcome.inject)
    have G': "g' = thresholds (spec_normalizedScore ?d (T @ F)) (1 < count_list T (CHR ''!''))
                     (toLowerCase (T @ F))"
      using g' by (simp only: scored_literal [OF lit] outcome.inject exclamations_filler [OF ex])
    from ty have "type (belowThreshold (confidenceThreshold (config ?A)) g')
        = type (belowThreshold (confidenceThreshold (config ?A)) g)"
      by (simp only: rg rg')
    then have "confidence (belowThreshold (confidenceThreshold (config ?A)) g')
        \<le> confidence (belowThreshold (confidenceThreshold (config ?A)) g)"
      unfolding G G' by (rule dilute_thresholds [OF normalizedScore_filler [OF nf]])
    then show ?thesis by (simp only: rg rg')
  qed
qed

text \<open>The lemma at the default analyzer, the text \<^verbatim>\<open>wow\<close> and the filler
  \<^verbatim>\<open> a b c\<close>: positive with confidence 0.98 before, positive with confidence 0.85
  after.\<close>

lemmas match_eval = canonicalize_def canonCode_def lowerCaseUnit_def

lemma wow_filler: "neutralFiller builtinDictionary ''wow'' '' a b c''"
proof -
  have l: "toLowerCase ''wow'' = ''wow''" "toLowerCase '' a b c'' = '' a b c''"
    by (simp_all add: lower_eval)
  show ?thesis
    unfolding neutralFiller_def l builtin_keys indicatorPhrases_def
    by (simp add: match_eval)
qed

lemma wow_result:
  "analyzeSentiment (newSentimentAnalyzer None None) (Some (JStr ''wow''))
     = Returns \<lparr> type = positive, confidence = 0.98 \<rparr>"
proof -
  have l: "toLowerCase ''wow'' = ''wow''" by (simp add: lower_eval)
  have sp: "specialCases d (toLowerCase ''wow'') = None" for d
    unfolding l by (simp add: specialCase_defs)
  have sc: "spec_score builtinDictionary ''wow'' = 1.5"
    unfolding builtinDictionary_entries by (simp add: score_eval lower_eval)
  have n: "spec_normalizedScore builtinDictionary ''wow'' = 1.5"
    unfolding spec_normalizedScore_def Let_def l sc by (simp add: isSpace_def)
  have a: "spec_analysis builtinDictionary ''wow'' = \<lparr> type = positive, confidence = 0.98 \<rparr>"
    unfolding spec_analysis_def Let_def n by simp
  have thr: "confidenceThreshold (config (newSentimentAnalyzer None None)) = 0.65"
    by (simp add: newSentimentAnalyzer_def)
  have ne: "''wow'' \<noteq> []" by simp
  have lit: "literalLexicon (dictionary (newSentimentAnalyzer None None))"
    by (simp only: default_dictionary builtin_literal)
  show ?thesis
    unfolding analyzeSentiment_generic [OF ne sp lit] default_dictionary a thr
    by (simp add: belowThreshold_def)
qed

lemma wow_diluted_result:
  "analyzeSentiment (newSentimentAnalyzer None None) (Some (JStr ''wow a b c''))
     = Returns \<lparr> type = positive, confidence = 0.85 \<rparr>"
proof -
  have l: "toLowerCase ''wow a b c'' = ''wow a b c''" by (simp add: lower_eval)
  have sp: "specialCases d (toLowerCase ''wow a b c'') = None" for d
    unfolding l by (simp add: specialCase_defs)
  have sc: "spec_score builtinDictionary ''wow a b c'' = 1.5"
    unfolding builtinDictionary_entries by (simp add: score_eval lower_eval)
  have n: "spec_normalizedScore builtinDictionary ''wow a b c'' = 0.75"
    unfolding spec_normalizedScore_def Let_def l sc by (simp add: isSpace_def)
  have a: "spec_analysis builtinDictionary ''wow a b c'' = \<lparr> type = positive, confidence = 0.85 \<rparr>"
    unfolding spec_analysis_def Let_def n by simp
  have thr: "confidenceThreshold (config (newSentimentAnalyzer None None)) = 0.65"
    by (simp add: newSentimentAnalyzer_def)
  have ne: "''wow a b c'' \<noteq> []" by simp
  have lit: "literalLexicon (dictionary (newSentimentAnalyzer None None))"
    by (simp only: default_dictionary builtin_literal)
  show ?thesis
    unfolding analyzeSentiment_generic [OF ne sp lit] default_dictionary a thr
    by (simp add: belowThreshold_def)
qed

lemma dilution_wow:
  "neutralFiller (dictionary (newSentimentAnalyzer None None)) ''wow'' '' a b c'' \<and>
   analyzeSentiment (newSentimentAnalyzer None None) (Some (JStr ''wow''))
     = Returns \<lparr> type = positive, confidence = 0.98 \<rparr> \<and>
   analyzeSentiment (newSentimentAnalyzer None None) (Some (JStr (''wow'' @ '' a b c'')))
     = Returns \<lparr> type = positive, confidence = 0.85 \<rparr> \<and>
   confidence \<lparr> type = positive, confidence = 0.85 \<rparr>
     \<le> confidence \<lparr> type = positive, confidence = 0.98 \<rparr>"
proof -
  let ?A = "newSentimentAnalyzer None None"
  have 1: "neutralFiller (dictionary ?A) ''wow'' '' a b c''"
    by (simp only: default_dictionary wow_filler)
  have 2: "analyzeSentiment ?A (Some (JStr ''wow'')) = Returns \<lparr> type = positive, confidence = 0.98 \<rparr>"
    by (rule wow_result)
  have 3: "analyzeSentiment ?A (Some (JStr (''wow'' @ '' a b c'')))
      = Returns \<lparr> type = positive, confidence = 0.85 \<rparr>"
    using wow_diluted_result by simp
  have 4: "type \<lparr> type = positive, confidence = 0.85 \<rparr> = type \<lparr> type = positive, confidence = 0.98 \<rparr>"
    by simp
  have 0: "literalLexicon (dictionary ?A)"
    by (simp only: default_dictionary builtin_literal)
  from 1 2 3 dilution_literal [OF 0 1 2 3 4] show ?thesis by blast
qed

section \<open>Scenarios of the test suite\<close>

text \<open>The texts of the repository's tests for the five types, on the default analyzer.\<close>

lemma scenario_positive:
  "analyzeSentiment (newSentimentAnalyzer None None)
     (Some (JStr ''I'm really happy with this product, it works great!''))
   = Returns \<lparr> type = positive, confidence = 0.9 \<rparr>"
proof -
  have "toLowerCase ''I'm really happy with this product, it works great!''
      = ''i'm really happy with this product, it works great!''"
    by (simp add: lower_eval)
  then show ?thesis by (simp add: analyzeSentiment_def specialCase_defs)
qed

lemma scenario_negative:
  "analyzeSentiment (newSentimentAnalyzer None None)
     (Some (JStr ''This is terrible, I'm very disappointed and frustrated.''))
   = Returns \<lparr> type = negative, confidence = 0.9 \<rparr>"
proof -
  have "toLowerCase ''This is terrible, I'm very disappointed and frustrated.''
      = ''this is terrible, i'm very disappointed and frustrated.''"
    by (simp add: lower_eval)
  then show ?thesis by (simp add: analyzeSentiment_def specialCase_defs)
qed

lemma scenario_frustration:
  "analyzeSentiment (newSentimentAnalyzer None None)
     (Some (JStr ''I've told you multiple times already and it still doesn't work!''))
   = Returns \<lparr> type = frustration, confidence = 0.9 \<rparr>"
proof -
  have "toLowerCase ''I've told you multiple times already and it still doesn't work!''
      = ''i've told you multiple times already and it still doesn't work!''"
    by (simp add: lower_eval)
  then show ?thesis by (simp add: analyzeSentiment_def specialCase_defs)
qed

lemma scenario_punctuation:
  "analyzeSentiment (newSentimentAnalyzer None None) (Some (JStr ''!!!---???...''))
   = Returns \<lparr> type = excitement, confidence = 0.94 \<rparr>"
proof -
  let ?c = "''!!!---???...''"
  have l: "toLowerCase ?c = ?c" by (simp add: lower_eval)
  have sp: "specialCases d (toLowerCase ?c) = None" for d
    unfolding l by (simp add: specialCase_defs)
  have sc: "spec_score builtinDictionary ?c = 2.4"
    unfolding builtinDictionary_entries by (simp add: score_eval lower_eval)
  have n: "spec_normalizedScore builtinDictionary ?c = 2.4"
    unfolding spec_normalizedScore_def Let_def l sc by (simp add: isSpace_def)
  have a: "spec_analysis builtinDictionary ?c = \<lparr> type = excitement, confidence = 0.94 \<rparr>"
    unfolding spec_analysis_def Let_def n by simp
  have thr: "confidenceThreshold (config (newSentimentAnalyzer None None)) = 0.65"
    by (simp add: newSentimentAnalyzer_def)
  have ne: "?c \<noteq> []" by simp
  have lit: "literalLexicon (dictionary (newSentimentAnalyzer None None))"
    by (simp only: default_dictionary builtin_literal)
  show ?thesis
    unfolding analyzeSentiment_generic [OF ne sp lit] default_dictionary a thr
    by (simp add: belowThreshold_def)
qed

section \<open>Rounding to the nearest double\<close>

lemma roundTiesToEven_nearest:
  assumes "\<bar>q - of_int m\<bar> < 1 / 2"
  shows "roundTiesToEven q = m"
proof -
  from assms have 1: "of_int m - 1 / 2 < q" and 2: "q < of_int m + 1 / 2" by linarith+
  show ?thesis
  proof (cases "of_int m \<le> q")
    case True
    with 2 have "\<lfloor>q\<rfloor> = m" by (intro floor_unique) linarith+
    with 2 show ?thesis by (simp add: roundTiesToEven_def Let_def)
  next
    case False
    with 1 have f: "\<lfloor>q\<rfloor> = m - 1" by (intro floor_unique) (simp, linarith+)
    with 1 have "1 / 2 < q - of_int (m - 1)" by simp
    with f show ?thesis by (simp add: roundTiesToEven_def Let_def)
  qed
qed

lemma roundTiesToEven_tie:
  assumes "\<bar>q - of_int m\<bar> = 1 / 2" and "even m"
  shows "roundTiesToEven q = m"
proof (cases "of_int m \<le> q")
  case True
  with assms(1) have q: "q = of_int m + 1 / 2" by linarith
  then have "\<lfloor>q\<rfloor> = m" by (intro floor_unique) simp_all
  with q assms(2) show ?thesis by (simp add: roundTiesToEven_def Let_def)
next
  case False
  with assms(1) have q: "q = of_int m - 1 / 2" by linarith
  then have f: "\<lfloor>q\<rfloor> = m - 1" by (intro floor_unique) simp_all
  have "q - of_int (m - 1) = 1 / 2" by (simp add: q)
  with f assms(2) show ?thesis by (simp add: roundTiesToEven_def Let_def)
qed

lemma exponent_eq:
  assumes "2 powi e \<le> \<bar>x\<bar>" and "\<bar>x\<bar> < 2 powi (e + 1)"
  shows "\<lfloor>log 2 \<bar>x\<bar>\<rfloor> = e"
proof -
  have "(0::real) < 2 powi e" by (simp add: zero_less_power_int)
  with assms(1) have p: "0 < \<bar>x\<bar>" by linarith
  have a: "(2::real) powr of_int e = 2 powi e" by (simp add: powr_real_of_int')
  have b: "(2::real) powr (of_int e + 1) = 2 powi (e + 1)"
    using powr_real_of_int' [of 2 "e + 1"] by simp
  show ?thesis
    using p assms by (subst floor_log_eq_powr_iff) (simp_all add: a b)
qed

text \<open>The value of \<open>binary64 x\<close> for a normal \<open>x\<close>, from the power of two below
  \<open>\<bar>x\<bar>\<close> and the integer to which the quotient by the spacing is rounded.\<close>

lemma binary64_rounded:
  assumes lo: "2 powi e \<le> \<bar>x\<bar>" and hi: "\<bar>x\<bar> < 2 powi (e + 1)"
    and e1: "- 1022 \<le> e" and e2: "e \<le> 1022"
    and m: "\<bar>x * 2 powi (52 - e) - of_int m\<bar> \<le> 1 / 2"
    and r: "roundTiesToEven (x * 2 powi (52 - e)) = m"
  shows "binary64 x = Finite (of_int m / 2 powi (52 - e))"
proof -
  have pos: "(0::real) < 2 powi k" for k by (simp add: zero_less_power_int)
  from lo pos [of e] have "0 < \<bar>x\<bar>" by linarith
  then have x: "x \<noteq> 0" by simp
  have ex: "max \<lfloor>log 2 \<bar>x\<bar>\<rfloor> (- 1022) = e"
    using exponent_eq [OF lo hi] e1 by simp
  have inv: "(2::real) powi (e - 52) = 1 / 2 powi (52 - e)"
    using power_int_minus [of "2::real" "52 - e"] by (simp add: field_simps)
  have q: "x / 2 powi (e - 52) = x * 2 powi (52 - e)"
    by (simp add: inv)
  have y: "real_of_int (roundTiesToEven (x / 2 powi (e - 52))) * 2 powi (e - 52)
      = real_of_int m / 2 powi (52 - e)"
    by (simp add: q r inv)
  have "\<bar>x\<bar> * 2 powi (52 - e) < 2 powi (e + 1) * 2 powi (52 - e)"
    using hi pos [of "52 - e"] by (simp only: mult_less_cancel_right_pos)
  also have "\<dots> = 2 powi 53"
    using power_int_add [of "2::real" "e + 1" "52 - e"] by simp
  finally have "\<bar>x * 2 powi (52 - e)\<bar> < 2 ^ 53"
    using pos [of "52 - e"] by (simp add: abs_mult)
  with m have "\<bar>real_of_int m\<bar> < 2 ^ 53 + 1" by linarith
  then have "real_of_int \<bar>m\<bar> < real_of_int (2 ^ 53 + 1)" by simp
  then have "\<bar>m\<bar> < 2 ^ 53 + 1" by (simp only: of_int_less_iff)
  then have "\<bar>m\<bar> \<le> 2 ^ 53" by simp
  then have "real_of_int \<bar>m\<bar> \<le> real_of_int (2 ^ 53)" by (simp only: of_int_le_iff)
  then have mb: "\<bar>real_of_int m\<bar> \<le> 2 ^ 53" by simp
  have "\<bar>real_of_int m / 2 powi (52 - e)\<bar> = \<bar>real_of_int m\<bar> * 2 powi (e - 52)"
    using pos [of "52 - e"] by (simp add: inv)
  also have "\<dots> \<le> 2 ^ 53 * 2 powi (e - 52)"
    using mb pos [of "e - 52"] by (simp only: mult_le_cancel_right_pos)
  also have "\<dots> = 2 powi (e + 1)"
    using power_int_add [of "2::real" 53 "e - 52"] by (simp add: add.commute)
  also have "\<dots> \<le> 2 powi 1023"
    using e2 by (intro power_int_increasing) simp_all
  also have "\<dots> < 2 ^ 1024" by simp
  finally have b: "\<bar>real_of_int m / 2 powi (52 - e)\<bar> < 2 ^ 1024" .
  then have "\<not> 2 ^ 1024 \<le> real_of_int m / 2 powi (52 - e)"
    and "\<not> real_of_int m / 2 powi (52 - e) \<le> - (2 ^ 1024)" by linarith+
  then show ?thesis
    unfolding binary64_def Let_def ex y using x by simp
qed

lemma binary64_nearest:
  assumes "2 powi e \<le> \<bar>x\<bar>" and "\<bar>x\<bar> < 2 powi (e + 1)"
    and "- 1022 \<le> e" and "e \<le> 1022"
    and m: "\<bar>x * 2 powi (52 - e) - of_int m\<bar> < 1 / 2"
  shows "binary64 x = Finite (of_int m / 2 powi (52 - e))"
proof -
  from m have "\<bar>x * 2 powi (52 - e) - of_int m\<bar> \<le> 1 / 2" by simp
  then show ?thesis
    using assms(1-4) roundTiesToEven_nearest [OF m] by (intro binary64_rounded)
qed

lemma binary64_tie:
  assumes "2 powi e \<le> \<bar>x\<bar>" and "\<bar>x\<bar> < 2 powi (e + 1)"
    and "- 1022 \<le> e" and "e \<le> 1022"
    and m: "\<bar>x * 2 powi (52 - e) - of_int m\<bar> = 1 / 2" and ev: "even m"
  shows "binary64 x = Finite (of_int m / 2 powi (52 - e))"
proof -
  from m have "\<bar>x * 2 powi (52 - e) - of_int m\<bar> \<le> 1 / 2" by simp
  then show ?thesis
    using assms(1-4) roundTiesToEven_tie [OF m ev] by (intro binary64_rounded)
qed

text \<open>The doubles of the number literals of \<^verbatim>\<open>analyzeSentiment\<close>. The literals 0.5, 1.5 and
  the integers are doubles; 0.7 is rounded down, 0.8 and 0.98 are rounded up.\<close>

lemma binary64_0_5: "binary64 (1 / 2) = Finite (1 / 2)"
  using binary64_nearest [of "- 1" "1 / 2" "4503599627370496"] by (simp add: power_int_def power_divide)

lemma binary64_1_5: "binary64 (3 / 2) = Finite (3 / 2)"
  using binary64_nearest [of "0" "3 / 2" "6755399441055744"] by (simp add: power_int_def power_divide)

lemma binary64_0_8: "binary64 (4 / 5) = Finite (3602879701896397 / 4503599627370496)"
  using binary64_nearest [of "- 1" "4 / 5" "7205759403792794"] by (simp add: power_int_def power_divide)

lemma binary64_0_98: "binary64 (49 / 50) = Finite (2206763817411543 / 2251799813685248)"
  using binary64_nearest [of "- 1" "49 / 50" "8827055269646172"] by (simp add: power_int_def power_divide)

lemma binary64_neg_0_5: "binary64 (- (1 / 2)) = Finite (- (1 / 2))"
  using binary64_nearest [of "- 1" "- (1 / 2)" "- 4503599627370496"] by (simp add: power_int_def power_divide)

lemma binary64_neg_1: "binary64 (- 1) = Finite (- 1)"
  using binary64_nearest [of "0" "- 1" "- 4503599627370496"] by (simp add: power_int_def power_divide)

lemma binary64_0_7: "binary64 (7 / 10) = Finite (3152519739159347 / 4503599627370496)"
  using binary64_nearest [of "- 1" "7 / 10" "6305039478318694"] by (simp add: power_int_def power_divide)

lemma binary64_0_65: "binary64 (13 / 20) = Finite (5854679515581645 / 9007199254740992)"
  using binary64_nearest [of "- 1" "13 / 20" "5854679515581645"] by (simp add: power_int_def power_divide)

lemma binary64_1: "binary64 1 = Finite 1"
  using binary64_nearest [of "0" "1" "4503599627370496"] by (simp add: power_int_def power_divide)

lemma binary64_2: "binary64 2 = Finite 2"
  using binary64_nearest [of "1" "2" "4503599627370496"] by (simp add: power_int_def power_divide)

lemma binary64_3: "binary64 3 = Finite 3"
  using binary64_nearest [of "1" "3" "6755399441055744"] by (simp add: power_int_def power_divide)

lemmas literal_rounding = binary64_0_5 binary64_1_5 binary64_0_8 binary64_0_98 binary64_neg_0_5 binary64_neg_1 binary64_0_7 binary64_0_65 binary64_1 binary64_2 binary64_3

text \<open>The square root of 3 lies between two neighbouring midpoints of doubles.\<close>

lemma sqrt3_bounds:
  "15600926743107923 / 9007199254740992 < sqrt 3"
  "sqrt 3 < 15600926743107925 / 9007199254740992"
  by (rule real_less_rsqrt, simp add: power2_eq_square)
     (rule real_less_lsqrt, simp_all add: power2_eq_square)

lemma binary64_sqrt3: "binary64 (sqrt 3) = Finite (3900231685776981 / 2251799813685248)"
proof -
  from sqrt3_bounds have "1 \<le> \<bar>sqrt 3\<bar>" and "\<bar>sqrt 3\<bar> < 2" by simp_all
  moreover from sqrt3_bounds
  have "7800463371553962 - 1 / 2 < sqrt 3 * 4503599627370496"
    and "sqrt 3 * 4503599627370496 < 7800463371553962 + 1 / 2" by simp_all
  then have "\<bar>sqrt 3 * 4503599627370496 - 7800463371553962\<bar> < 1 / 2" by linarith
  ultimately show ?thesis
    using binary64_nearest [of 0 "sqrt 3" 7800463371553962] by (simp add: power_int_def)
qed

lemma dmin_commute: "dmin a b = dmin b a"
  by (cases a; cases b) (auto simp: dmin_def)

lemma neutral_cap: "dmin (binary64 0.8) (binary64 0.98) = binary64 0.8"
  by (simp add: binary64_0_8 binary64_0_98 dmin_def)

section \<open>Tokens and pieces\<close>

text \<open>A text has as many tokens as \<^verbatim>\<open>split(/\s+/)\<close> gives pieces when it neither starts
  nor ends with white space.\<close>

lemma tokens_runs:
  "s \<noteq> [] \<Longrightarrow>
   spec_tokens s + (if isSpace (last s) then 1 else 0)
     = spec_whitespaceRuns s + (if isSpace (hd s) then 0 else 1)"
  by (induction s rule: spec_tokens.induct) auto

lemma length_splitWs_tokens:
  assumes "s \<noteq> []" and "\<not> isSpace (hd s)" and "\<not> isSpace (last s)"
  shows "length (splitWs s) = spec_tokens s"
  using tokens_runs [OF assms(1)] assms(2,3) by (simp add: length_splitWs)

lemma hd_toLowerCase: "s \<noteq> [] \<Longrightarrow> isSpace (hd (toLowerCase s)) = isSpace (hd s)"
  by (cases s) (simp_all add: toLowerCase_def isSpace_lowerChar)

lemma last_toLowerCase: "s \<noteq> [] \<Longrightarrow> isSpace (last (toLowerCase s)) = isSpace (last s)"
  by (simp add: toLowerCase_def last_map isSpace_lowerChar)

section \<open>The scoring loop in the arithmetic of the machine\<close>

lemma scoreEntries64_prefix:
  "literalLexicon es \<Longrightarrow>
   scoreEntries64 (es @ es') lc sc mc =
     scoreEntries64 es' lc
       (foldl (\<lambda>total (t, weight).
                let n = countMatches t lc
                in if n = 0 then total
                   else dadd total (dmul (binary64 weight) (Finite (real n)))) sc es)
       (mc + (\<Sum>(t, w) \<leftarrow> es. countMatches t lc))"
proof (induction es arbitrary: sc mc)
  case Nil
  then show ?case by simp
next
  case (Cons e es)
  obtain t w where e: "e = (t, w)" by (cases e)
  from Cons.prems have lit: "literalTerm t" and rest: "literalLexicon es"
    by (simp_all add: literalLexicon_def e)
  show ?case
    by (simp add: e regexMatchCount_def lit Cons.IH [OF rest] Let_def add.assoc)
qed

lemma score64_spec:
  "foldl (\<lambda>total (t, weight).
            let n = countMatches t (toLowerCase s)
            in if n = 0 then total
               else dadd total (dmul (binary64 weight) (Finite (real n)))) (Finite 0) es
   = spec64_score es (toLowerCase s)"
  by (simp add: spec64_score_def countMatches_lowerContent)

lemma scoreEntries64_append:
  "literalLexicon es \<Longrightarrow>
   scoreEntries64 (es @ es') (toLowerCase s) (Finite 0) mc =
     scoreEntries64 es' (toLowerCase s) (spec64_score es (toLowerCase s))
       (mc + (\<Sum>(t, w) \<leftarrow> es. countMatches t (toLowerCase s)))"
  by (simp only: scoreEntries64_prefix score64_spec)

lemma scoreEntries64_spec:
  "literalLexicon es \<Longrightarrow>
   scoreEntries64 es (toLowerCase s) (Finite 0) mc =
     Returns (spec64_score es (toLowerCase s),
              mc + (\<Sum>(t, w) \<leftarrow> es. countMatches t (toLowerCase s)))"
  using scoreEntries64_append [of es "[]" s mc] by simp

lemma scored64_literal:
  assumes "literalLexicon dict" and "s \<noteq> []" and "\<not> isSpace (hd s)" and "\<not> isSpace (last s)"
  shows "scored64 dict s =
     Returns (thresholds64 (spec64_normalizedScore dict s) (1 < count_list s (CHR ''!''))
                (toLowerCase s))"
proof -
  have ne: "toLowerCase s \<noteq> []" using assms(2) by (simp add: toLowerCase_Nil_iff)
  have wc: "length (splitWs (toLowerCase s)) = spec_tokens (toLowerCase s)"
    using assms(2-4) by (intro length_splitWs_tokens ne) (simp_all add: hd_toLowerCase last_toLowerCase)
  have "0 < length (splitWs (toLowerCase s))" by (simp add: length_splitWs)
  with wc have pos: "0 < spec_tokens (toLowerCase s)" by simp
  show ?thesis
    unfolding scored64_def spec64_normalizedScore_def Let_def wc
    using pos by (simp add: scoreEntries64_spec [OF assms(1)] exclamationCount)
qed

lemma thresholds64_spec:
  "thresholds64 (spec64_normalizedScore dict s) (1 < count_list s (CHR ''!'')) (toLowerCase s)
     = spec64_analysis dict s"
  unfolding thresholds64_def spec64_analysis_def Let_def frustrationIndicators_spec
  using neutral_cap by (simp add: dmin_commute)

lemma analyzeSentiment64_generic:
  assumes "s \<noteq> []" and "\<not> isSpace (hd s)" and "\<not> isSpace (last s)"
    and "specialCases64 (dictionary this) (toLowerCase s) = None"
    and "literalLexicon (dictionary this)"
  shows "analyzeSentiment64 this (Some (JStr s)) =
     Returns (belowThreshold64 (confidenceThreshold (config this))
                (spec64_analysis (dictionary this) s))"
proof -
  have "scored64 (dictionary this) s = Returns (spec64_analysis (dictionary this) s)"
    by (simp only: scored64_literal [OF assms(5,1,2,3)] thresholds64_spec)
  with assms(1,4) show ?thesis
    by (simp add: analyzeSentiment64_def)
qed

lemma specialCases64_Nil: "specialCases64 d [] = None"
  by (simp add: specialCases64_def specialCase1_def specialCase2_def specialCase3_def
        specialCase4_def specialCase5_64_def)

lemma spec64_analysis_Nil:
  "spec64_analysis d [] = \<lparr> type64 = neutral, confidence64 = binary64 0.8 \<rparr>"
  by (simp add: spec64_analysis_def spec64_normalizedScore_def toLowerCase_def literal_rounding)

section \<open>Claim C1: the generic scoring rule\<close>

text \<open>
  Claim C1, as amended. Let the content be a non-empty string that neither starts nor
  ends with white space and meets no special case, and let the terms of the lexicon have
  no syntax character. Then \<open>analyzeSentiment64\<close>, the analysis in the arithmetic of the
  machine, returns the analysis that the claim words, followed by the fall-back to
  neutral below the confidence threshold. The score adds, in the order of the lexicon,
  the weight of each term that occurs times the number of its occurrences in the
  lowercased content, counted from left to right without overlap and up to case. The
  normalized score divides the score by the square root of the number of tokens. Above
  0.5 the type is excitement with confidence min(0.98, 0.7 + normalized score / 10) when
  the normalized score exceeds 1.5, or exceeds 0.8 in a text with more than one
  exclamation mark, and otherwise positive with confidence
  min(0.98, 0.7 + normalized score / 5). Below -0.5 the type is frustration when the
  lowercased text contains one of the five indicator phrases or the normalized score is
  below -1.0, and otherwise negative, with confidence
  min(0.98, 0.7 + |normalized score| / 5). In between the type is neutral with
  confidence 0.8. Every literal stands for the double nearest to it and every operation
  rounds.
\<close>

theorem C1_generic_scoring:
  assumes "s \<noteq> []" and "\<not> isSpace (hd s)" and "\<not> isSpace (last s)"
    and "specialCases64 (dictionary this) (toLowerCase s) = None"
    and "literalLexicon (dictionary this)"
  shows "analyzeSentiment64 this (Some (JStr s)) =
     Returns (belowThreshold64 (confidenceThreshold (config this))
                (spec64_analysis (dictionary this) s))"
  using assms by (rule analyzeSentiment64_generic)

text \<open>The theorem at the default analyzer and the text \<^verbatim>\<open>good\<close>.\<close>

theorem C1_witness:
  "''good'' \<noteq> [] \<and> \<not> isSpace (hd ''good'') \<and> \<not> isSpace (last ''good'') \<and>
   specialCases64 (dictionary (newSentimentAnalyzer None None)) (toLowerCase ''good'') = None \<and>
   literalLexicon (dictionary (newSentimentAnalyzer None None)) \<and>
   analyzeSentiment64 (newSentimentAnalyzer None None) (Some (JStr ''good''))
     = Returns (belowThreshold64 (confidenceThreshold (config (newSentimentAnalyzer None None)))
                  (spec64_analysis (dictionary (newSentimentAnalyzer None None)) ''good''))"
proof -
  let ?A = "newSentimentAnalyzer None None"
  have 1: "''good'' \<noteq> []" by simp
  have 2: "\<not> isSpace (hd ''good'')" by (simp add: isSpace_def)
  have 3: "\<not> isSpace (last ''good'')" by (simp add: isSpace_def)
  have 4: "specialCases64 (dictionary ?A) (toLowerCase ''good'') = None"
    unfolding good_lower
    by (simp add: specialCases64_def specialCase1_def specialCase2_def specialCase3_def
          specialCase4_def specialCase5_64_def)
  have 5: "literalLexicon (dictionary ?A)"
    by (simp only: default_dictionary builtin_literal)
  from 1 2 3 4 5 C1_generic_scoring [OF 1 2 3 4 5] show ?thesis by blast
qed

text \<open>
  Three inputs on which the result is not the one of the rule: the empty string, a text
  with white space at both ends, and a lexicon with a term that is not literal.

  The text \<^verbatim>\<open> good \<close> has one token and three pieces. The rule divides the score 0.7 by
  the square root of 1 and gives positive with confidence 0.84; the source divides it by
  the square root of 3 and returns neutral.
\<close>

lemma double_0_7: "binary64 (3152519739159347 / 4503599627370496) = Finite (3152519739159347 / 4503599627370496)"
  using binary64_nearest [of "- 1" "3152519739159347 / 4503599627370496" "6305039478318694"] by (simp add: power_int_def power_divide)

lemma spaces_claim_increment: "binary64 (3152519739159347 / 22517998136852480) = Finite (5044031582654955 / 36028797018963968)"
  using binary64_nearest [of "- 3" "3152519739159347 / 22517998136852480" "5044031582654955"] by (simp add: power_int_def power_divide)

lemma spaces_claim_confidence: "binary64 (30264189495929731 / 36028797018963968) = Finite (7566047373982433 / 9007199254740992)"
  using binary64_nearest [of "- 1" "30264189495929731 / 36028797018963968" "7566047373982433"] by (simp add: power_int_def power_divide)

lemma binary64_0_84: "binary64 (21 / 25) = Finite (7566047373982433 / 9007199254740992)"
  using binary64_nearest [of "- 1" "21 / 25" "7566047373982433"] by (simp add: power_int_def power_divide)

lemma spaces_normalized: "binary64 (3152519739159347 / 7800463371553962) = Finite (910054060014629 / 2251799813685248)"
  using binary64_nearest [of "- 2" "3152519739159347 / 7800463371553962" "7280432480117032"] by (simp add: power_int_def power_divide)

lemmas spaces_rounding = double_0_7 spaces_claim_increment spaces_claim_confidence binary64_0_84 spaces_normalized

lemma spaces_lower: "toLowerCase '' good '' = '' good ''"
  by (simp add: lower_eval)

lemma spaces_special: "specialCases64 d (toLowerCase '' good '') = None"
  unfolding spaces_lower
  by (simp add: specialCases64_def specialCase1_def specialCase2_def specialCase3_def
        specialCase4_def specialCase5_64_def)

lemma spaces_score:
  "spec64_score builtinDictionary '' good '' = Finite (3152519739159347 / 4503599627370496)"
  unfolding builtinDictionary_entries spec64_score_def
  by (simp add: occ_Nil occ_Cons lower_eval Let_def literal_rounding spaces_rounding)

lemma spaces_claim:
  "spec64_analysis builtinDictionary '' good ''
     = \<lparr> type64 = positive, confidence64 = binary64 0.84 \<rparr>"
proof -
  have "spec64_normalizedScore builtinDictionary '' good ''
      = Finite (3152519739159347 / 4503599627370496)"
    unfolding spec64_normalizedScore_def Let_def spaces_lower spaces_score
    by (simp add: isSpace_def literal_rounding spaces_rounding)
  then show ?thesis
    unfolding spec64_analysis_def Let_def
    by (simp add: literal_rounding spaces_rounding dmin_def)
qed

lemma spaces_scored:
  "scored64 builtinDictionary '' good ''
     = Returns \<lparr> type64 = neutral, confidence64 = binary64 0.8 \<rparr>"
proof -
  have "scoreEntries64 builtinDictionary (toLowerCase '' good '') (Finite 0) 0
      = Returns (Finite (3152519739159347 / 4503599627370496),
                 0 + (\<Sum>(t, w) \<leftarrow> builtinDictionary. countMatches t (toLowerCase '' good '')))"
    apply (subst scoreEntries64_spec [OF builtin_literal])
    unfolding spaces_lower spaces_score
    by simp
  moreover have "length (splitWs (toLowerCase '' good '')) = 3"
    unfolding spaces_lower by (simp add: length_splitWs isSpace_def)
  ultimately show ?thesis
    unfolding scored64_def Let_def
    by (simp add: binary64_sqrt3 thresholds64_def literal_rounding spaces_rounding dmin_def)
qed

lemma spaces_result:
  "analyzeSentiment64 (newSentimentAnalyzer None None) (Some (JStr '' good ''))
     = Returns \<lparr> type64 = neutral, confidence64 = binary64 0.8 \<rparr>"
proof -
  have thr: "confidenceThreshold (config (newSentimentAnalyzer None None)) = 0.65"
    by (simp add: newSentimentAnalyzer_def)
  show ?thesis
    by (simp add: analyzeSentiment64_def spaces_special default_dictionary spaces_scored
          thr belowThreshold64_def)
qed

text \<open>With the custom term \<^verbatim>\<open>:(\<close> the loop throws, in this arithmetic as in the exact
  one.\<close>

lemma emoticon_result64:
  "analyzeSentiment64 (newSentimentAnalyzer None (Some [('':('', - 1)])) (Some (JStr ''hi''))
     = Throws SyntaxError"
proof -
  have lc: "toLowerCase ''hi'' = ''hi''" by (simp add: lower_eval)
  have none: "specialCases64 d (toLowerCase ''hi'') = None" for d
    unfolding lc
    by (simp add: specialCases64_def specialCase1_def specialCase2_def specialCase3_def
          specialCase4_def specialCase5_64_def)
  have "scoreEntries64 (builtinDictionary @ [('':('', - 1)]) lc (Finite 0) 0 = Throws SyntaxError" for lc
    by (simp add: scoreEntries64_prefix [OF builtin_literal] emoticon_pattern)
  then have "scored64 (builtinDictionary @ [('':('', - 1)]) ''hi'' = Throws SyntaxError"
    by (simp add: scored64_def Let_def)
  then show ?thesis
    by (simp add: analyzeSentiment64_def emoticon_dictionary none)
qed

text \<open>
  Claim C1, as stated, fails. The empty string is a string and meets no special case; the
  rule of the claim gives it neutral with confidence 0.8, and \<open>analyzeSentiment64\<close>
  returns neutral with confidence 1.0, through the guard. The text \<^verbatim>\<open> good \<close> meets no
  special case; the rule of the claim, with its single token, gives positive with
  confidence 0.84, and \<open>analyzeSentiment64\<close> returns neutral with confidence 0.8. With
  the custom dictionary \<^verbatim>\<open>{':(': -1}\<close> the text \<^verbatim>\<open>hi\<close> meets no special case, and
  \<open>analyzeSentiment64\<close> throws instead of returning the analysis of the rule.
\<close>

theorem C1_counterexample:
  "specialCases64 (dictionary (newSentimentAnalyzer None None)) (toLowerCase '''') = None \<and>
   analyzeSentiment64 (newSentimentAnalyzer None None) (Some (JStr ''''))
     = Returns \<lparr> type64 = neutral, confidence64 = Finite 1 \<rparr> \<and>
   analyzeSentiment64 (newSentimentAnalyzer None None) (Some (JStr ''''))
     \<noteq> Returns (belowThreshold64 (confidenceThreshold (config (newSentimentAnalyzer None None)))
                  (spec64_analysis (dictionary (newSentimentAnalyzer None None)) '''')) \<and>
   specialCases64 (dictionary (newSentimentAnalyzer None None)) (toLowerCase '' good '') = None \<and>
   analyzeSentiment64 (newSentimentAnalyzer None None) (Some (JStr '' good ''))
     = Returns \<lparr> type64 = neutral, confidence64 = binary64 0.8 \<rparr> \<and>
   analyzeSentiment64 (newSentimentAnalyzer None None) (Some (JStr '' good ''))
     \<noteq> Returns (belowThreshold64 (confidenceThreshold (config (newSentimentAnalyzer None None)))
                  (spec64_analysis (dictionary (newSentimentAnalyzer None None)) '' good '')) \<and>
   specialCases64 (dictionary (newSentimentAnalyzer None (Some [('':('', - 1)])))
       (toLowerCase ''hi'') = None \<and>
   analyzeSentiment64 (newSentimentAnalyzer None (Some [('':('', - 1)])) (Some (JStr ''hi''))
     = Throws SyntaxError \<and>
   analyzeSentiment64 (newSentimentAnalyzer None (Some [('':('', - 1)])) (Some (JStr ''hi''))
     \<noteq> Returns (belowThreshold64
                  (confidenceThreshold (config (newSentimentAnalyzer None (Some [('':('', - 1)]))))
                  (spec64_analysis (dictionary (newSentimentAnalyzer None (Some [('':('', - 1)])))
                     ''hi''))"
proof -
  let ?A = "newSentimentAnalyzer None None"
  have thr: "confidenceThreshold (config ?A) = 0.65"
    by (simp add: newSentimentAnalyzer_def)
  have 1: "specialCases64 (dictionary ?A) (toLowerCase []) = None"
    by (simp add: toLowerCase_def specialCases64_Nil)
  have 2: "analyzeSentiment64 ?A (Some (JStr []))
      = Returns \<lparr> type64 = neutral, confidence64 = Finite 1 \<rparr>"
    by (simp add: analyzeSentiment64_def)
  have 3: "belowThreshold64 (confidenceThreshold (config ?A)) (spec64_analysis (dictionary ?A) [])
      = \<lparr> type64 = neutral, confidence64 = binary64 0.8 \<rparr>"
    by (simp add: spec64_analysis_Nil belowThreshold64_def)
  have 4: "binary64 0.8 \<noteq> Finite 1"
    by (simp add: binary64_0_8)
  have 5: "belowThreshold64 (confidenceThreshold (config ?A))
         (spec64_analysis (dictionary ?A) '' good '')
      = \<lparr> type64 = positive, confidence64 = binary64 0.84 \<rparr>"
    unfolding default_dictionary spaces_claim thr
    by (simp add: belowThreshold64_def literal_rounding spaces_rounding)
  have 6: "specialCases64 d (toLowerCase ''hi'') = None" for d
    by (simp add: lower_eval specialCases64_def specialCase1_def specialCase2_def
          specialCase3_def specialCase4_def specialCase5_64_def)
  from 1 2 3 4 5 6 spaces_special spaces_result emoticon_result64 show ?thesis
    by simp
qed

section \<open>Two texts at a threshold\<close>

text \<open>
  The results of \<open>analyzeSentiment64\<close> with the default analyzer on two texts whose
  normalized score, in exact arithmetic, is a threshold.

  In \<^verbatim>\<open>lovelikebad\<close> the weights 1.4, 0.8 and -0.7 are added in this order. The sum is the
  double next above 1.5, so the single word is scored as excitement, with confidence
  0.85.
\<close>

lemma binary64_1_4: "binary64 (7 / 5) = Finite (3152519739159347 / 2251799813685248)"
  using binary64_nearest [of "0" "7 / 5" "6305039478318694"] by (simp add: power_int_def power_divide)

lemma double_1_4: "binary64 (3152519739159347 / 2251799813685248) = Finite (3152519739159347 / 2251799813685248)"
  using binary64_nearest [of "0" "3152519739159347 / 2251799813685248" "6305039478318694"] by (simp add: power_int_def power_divide)

lemma double_0_8: "binary64 (3602879701896397 / 4503599627370496) = Finite (3602879701896397 / 4503599627370496)"
  using binary64_nearest [of "- 1" "3602879701896397 / 4503599627370496" "7205759403792794"] by (simp add: power_int_def power_divide)

lemma love_sum_like: "binary64 (9907919180215091 / 4503599627370496) = Finite (2476979795053773 / 1125899906842624)"
  using binary64_tie [of "1" "9907919180215091 / 4503599627370496" "4953959590107546"] by (simp add: power_int_def power_divide)

lemma binary64_neg_0_7: "binary64 (- (7 / 10)) = Finite (- (3152519739159347 / 4503599627370496))"
  using binary64_nearest [of "- 1" "- (7 / 10)" "- 6305039478318694"] by (simp add: power_int_def power_divide)

lemma double_neg_0_7: "binary64 (- (3152519739159347 / 4503599627370496)) = Finite (- (3152519739159347 / 4503599627370496))"
  using binary64_nearest [of "- 1" "- (3152519739159347 / 4503599627370496)" "- 6305039478318694"] by (simp add: power_int_def power_divide)

lemma double_1_5000000000000002: "binary64 (6755399441055745 / 4503599627370496) = Finite (6755399441055745 / 4503599627370496)"
  using binary64_nearest [of "0" "6755399441055745 / 4503599627370496" "6755399441055745"] by (simp add: power_int_def power_divide)

lemma double_0_15000000000000002: "binary64 (1351079888211149 / 9007199254740992) = Finite (1351079888211149 / 9007199254740992)"
  using binary64_nearest [of "- 3" "1351079888211149 / 9007199254740992" "5404319552844596"] by (simp add: power_int_def power_divide)

lemma double_0_85: "binary64 (7656119366529843 / 9007199254740992) = Finite (7656119366529843 / 9007199254740992)"
  using binary64_nearest [of "- 1" "7656119366529843 / 9007199254740992" "7656119366529843"] by (simp add: power_int_def power_divide)

lemma binary64_0_85: "binary64 (17 / 20) = Finite (7656119366529843 / 9007199254740992)"
  using binary64_nearest [of "- 1" "17 / 20" "7656119366529843"] by (simp add: power_int_def power_divide)

lemmas love_rounding = binary64_1_4 double_1_4 double_0_8 love_sum_like binary64_neg_0_7 double_neg_0_7 double_1_5000000000000002 double_0_15000000000000002 double_0_85 binary64_0_85

lemma love_lower: "toLowerCase ''lovelikebad'' = ''lovelikebad''"
  by (simp add: lower_eval)

lemma love_score:
  "spec64_score builtinDictionary ''lovelikebad'' = Finite (6755399441055745 / 4503599627370496)"
  unfolding builtinDictionary_entries spec64_score_def
  by (simp add: occ_Nil occ_Cons lower_eval Let_def literal_rounding love_rounding)

lemma love_normalized:
  "spec64_normalizedScore builtinDictionary ''lovelikebad''
     = Finite (6755399441055745 / 4503599627370496)"
  unfolding spec64_normalizedScore_def Let_def love_lower love_score
  by (simp add: isSpace_def literal_rounding love_rounding)

lemma love_analysis:
  "spec64_analysis builtinDictionary ''lovelikebad''
     = \<lparr> type64 = excitement, confidence64 = binary64 0.85 \<rparr>"
  unfolding spec64_analysis_def Let_def love_normalized
  by (simp add: literal_rounding love_rounding dmin_def)

lemma default_generic64:
  assumes "s \<noteq> []" and "\<not> isSpace (hd s)" and "\<not> isSpace (last s)"
    and "specialCases64 builtinDictionary (toLowerCase s) = None"
    and "spec64_analysis builtinDictionary s = a"
    and "\<not> dless (confidence64 a) (binary64 0.65)"
  shows "analyzeSentiment64 (newSentimentAnalyzer None None) (Some (JStr s)) = Returns a"
proof -
  let ?A = "newSentimentAnalyzer None None"
  have lit: "literalLexicon (dictionary ?A)"
    by (simp only: default_dictionary builtin_literal)
  have thr: "confidenceThreshold (config ?A) = 0.65"
    by (simp add: newSentimentAnalyzer_def)
  have sp: "specialCases64 (dictionary ?A) (toLowerCase s) = None"
    using assms(4) by (simp only: default_dictionary)
  show ?thesis
    unfolding analyzeSentiment64_generic [OF assms(1-3) sp lit] default_dictionary thr assms(5)
    using assms(6) by (simp add: belowThreshold64_def)
qed

lemma love_result:
  "analyzeSentiment64 (newSentimentAnalyzer None None) (Some (JStr ''lovelikebad''))
     = Returns \<lparr> type64 = excitement, confidence64 = binary64 0.85 \<rparr>"
proof (rule default_generic64 [OF _ _ _ _ love_analysis])
  show "specialCases64 builtinDictionary (toLowerCase ''lovelikebad'') = None"
    unfolding love_lower
    by (simp add: specialCases64_def specialCase1_def specialCase2_def specialCase3_def
          specialCase4_def specialCase5_64_def)
  show "\<not> dless (confidence64 \<lparr> type64 = excitement, confidence64 = binary64 0.85 \<rparr>)
            (binary64 0.65)"
    by (simp add: literal_rounding love_rounding)
qed (simp_all add: isSpace_def)

text \<open>
  In \<^verbatim>\<open>I enjoy, you dislike\<close> the terms \<^verbatim>\<open>like\<close>, \<^verbatim>\<open>enjoy\<close> and \<^verbatim>\<open>dislike\<close> occur once each;
  the weights 0.8, 0.9 and -0.7 are added in this order. The sum is the double next above
  1, and half of it exceeds 0.5: the four words are scored as positive, with the
  confidence 0.7999999999999999.
\<close>

lemma binary64_0_9: "binary64 (9 / 10) = Finite (8106479329266893 / 9007199254740992)"
  using binary64_nearest [of "- 1" "9 / 10" "8106479329266893"] by (simp add: power_int_def power_divide)

lemma double_0_9: "binary64 (8106479329266893 / 9007199254740992) = Finite (8106479329266893 / 9007199254740992)"
  using binary64_nearest [of "- 1" "8106479329266893 / 9007199254740992" "8106479329266893"] by (simp add: power_int_def power_divide)

lemma enjoy_sum_enjoy: "binary64 (15312238733059687 / 9007199254740992) = Finite (1914029841632461 / 1125899906842624)"
  using binary64_tie [of "0" "15312238733059687 / 9007199254740992" "7656119366529844"] by (simp add: power_int_def power_divide)

lemma double_1_0000000000000002: "binary64 (4503599627370497 / 4503599627370496) = Finite (4503599627370497 / 4503599627370496)"
  using binary64_nearest [of "0" "4503599627370497 / 4503599627370496" "4503599627370497"] by (simp add: power_int_def power_divide)

lemma double_0_5000000000000001: "binary64 (4503599627370497 / 9007199254740992) = Finite (4503599627370497 / 9007199254740992)"
  using binary64_nearest [of "- 1" "4503599627370497 / 9007199254740992" "4503599627370497"] by (simp add: power_int_def power_divide)

lemma enjoy_increment: "binary64 (4503599627370497 / 45035996273704960) = Finite (7205759403792795 / 72057594037927936)"
  using binary64_nearest [of "- 4" "4503599627370497 / 45035996273704960" "7205759403792795"] by (simp add: power_int_def power_divide)

lemma enjoy_confidence: "binary64 (57646075230342347 / 72057594037927936) = Finite (7205759403792793 / 9007199254740992)"
  using binary64_nearest [of "- 1" "57646075230342347 / 72057594037927936" "7205759403792793"] by (simp add: power_int_def power_divide)

lemma binary64_0_7999999999999999: "binary64 (7999999999999999 / 10000000000000000) = Finite (7205759403792793 / 9007199254740992)"
  using binary64_nearest [of "- 1" "7999999999999999 / 10000000000000000" "7205759403792793"] by (simp add: power_int_def power_divide)

lemmas enjoy_rounding = binary64_0_9 double_0_9 enjoy_sum_enjoy double_1_0000000000000002 double_0_5000000000000001 enjoy_increment enjoy_confidence binary64_0_7999999999999999

lemma enjoy_lower: "toLowerCase ''I enjoy, you dislike'' = ''i enjoy, you dislike''"
  by (simp add: lower_eval)

lemma enjoy_score:
  "spec64_score builtinDictionary ''i enjoy, you dislike''
     = Finite (4503599627370497 / 4503599627370496)"
  unfolding builtinDictionary_entries spec64_score_def
  by (simp add: occ_Nil occ_Cons lower_eval Let_def literal_rounding love_rounding enjoy_rounding)

lemma enjoy_normalized:
  "spec64_normalizedScore builtinDictionary ''I enjoy, you dislike''
     = Finite (4503599627370497 / 9007199254740992)"
  unfolding spec64_normalizedScore_def Let_def enjoy_lower enjoy_score
  by (simp add: isSpace_def literal_rounding love_rounding enjoy_rounding)

lemma enjoy_analysis:
  "spec64_analysis builtinDictionary ''I enjoy, you dislike''
     = \<lparr> type64 = positive, confidence64 = binary64 0.7999999999999999 \<rparr>"
  unfolding spec64_analysis_def Let_def enjoy_normalized
  by (simp add: literal_rounding love_rounding enjoy_rounding dmin_def)

lemma enjoy_result:
  "analyzeSentiment64 (newSentimentAnalyzer None None) (Some (JStr ''I enjoy, you dislike''))
     = Returns \<lparr> type64 = positive, confidence64 = binary64 0.7999999999999999 \<rparr>"
proof (rule default_generic64 [OF _ _ _ _ enjoy_analysis])
  show "specialCases64 builtinDictionary (toLowerCase ''I enjoy, you dislike'') = None"
    unfolding enjoy_lower
    by (simp add: specialCases64_def specialCase1_def specialCase2_def specialCase3_def
          specialCase4_def specialCase5_64_def)
  show "\<not> dless (confidence64 \<lparr> type64 = positive, confidence64 = binary64 0.7999999999999999 \<rparr>)
            (binary64 0.65)"
    by (simp add: literal_rounding love_rounding enjoy_rounding)
qed (simp_all add: isSpace_def)

section \<open>Claim C9: a lexicon term anchored at the end of the text\<close>

lemma anchored_dictionary:
  "dictionary (newSentimentAnalyzer None (Some [(''x$'', - 1)]))
     = builtinDictionary @ [(''x$'', - 1)]"
proof -
  have "''x$'' \<notin> fst ` set builtinDictionary"
    unfolding set_map [symmetric] builtin_keys by simp
  moreover have "arrayIndex ''x$'' = None"
    by (simp add: arrayIndex_def isDigit_def)
  ultimately show ?thesis
    by (simp add: newSentimentAnalyzer_def assign_def setOwn_fresh)
qed

lemma anchored_pattern:
  "regexMatchCount ''x$'' lc = Returns (if matchesAtEnd ''x'' lc then 1 else 0)"
  by (simp add: regexMatchCount_def literalTerm_def syntaxCharacters_def anchoredTerm_def)

lemma anchored_normalized: "binary64 (4503599627370496 / 3900231685776981) = Finite (5200308914369309 / 4503599627370496)"
  using binary64_nearest [of "0" "4503599627370496 / 3900231685776981" "5200308914369309"] by (simp add: power_int_def power_divide)

lemma anchored_increment: "binary64 (5200308914369309 / 22517998136852480) = Finite (4160247131495447 / 18014398509481984)"
  using binary64_nearest [of "- 3" "5200308914369309 / 22517998136852480" "8320494262990894"] by (simp add: power_int_def power_divide)

lemma anchored_confidence: "binary64 (16770326088132835 / 18014398509481984) = Finite (4192581522033209 / 4503599627370496)"
  using binary64_tie [of "- 1" "16770326088132835 / 18014398509481984" "8385163044066418"] by (simp add: power_int_def power_divide)

lemma binary64_0_9309401076758503: "binary64 (9309401076758503 / 10000000000000000) = Finite (4192581522033209 / 4503599627370496)"
  using binary64_nearest [of "- 1" "9309401076758503 / 10000000000000000" "8385163044066418"] by (simp add: power_int_def power_divide)

lemma diluted_increment: "binary64 (3 / 10) = Finite (5404319552844595 / 18014398509481984)"
  using binary64_nearest [of "- 2" "3 / 10" "5404319552844595"] by (simp add: power_int_def power_divide)

lemma diluted_confidence: "binary64 (18014398509481983 / 18014398509481984) = Finite 1"
  using binary64_tie [of "- 1" "18014398509481983 / 18014398509481984" "9007199254740992"] by (simp add: power_int_def power_divide)

lemmas anchored_rounding = anchored_normalized anchored_increment anchored_confidence binary64_0_9309401076758503 diluted_increment diluted_confidence

lemma anchored_lower:
  "toLowerCase ''wow wow x'' = ''wow wow x''"
  "toLowerCase ''wow wow x a'' = ''wow wow x a''"
  "toLowerCase '' a'' = '' a''"
  by (simp_all add: lower_eval)

lemma anchored_special:
  "specialCases64 d (toLowerCase ''wow wow x'') = None"
  "specialCases64 d (toLowerCase ''wow wow x a'') = None"
  unfolding anchored_lower
  by (simp_all add: specialCases64_def specialCase1_def specialCase2_def specialCase3_def
        specialCase4_def specialCase5_64_def)

lemma anchored_builtin_score:
  "spec64_score builtinDictionary ''wow wow x'' = Finite 3"
  "spec64_score builtinDictionary ''wow wow x a'' = Finite 3"
  unfolding builtinDictionary_entries spec64_score_def
  by (simp_all add: occ_Nil occ_Cons lower_eval Let_def literal_rounding)

lemma anchored_scored:
  "scored64 (builtinDictionary @ [(''x$'', - 1)]) ''wow wow x''
     = Returns \<lparr> type64 = positive, confidence64 = binary64 0.9309401076758503 \<rparr>"
proof -
  have "scoreEntries64 (builtinDictionary @ [(''x$'', - 1)]) (toLowerCase ''wow wow x'') (Finite 0) 0
      = Returns (Finite 2, 0 + (\<Sum>(t, w) \<leftarrow> builtinDictionary. countMatches t (toLowerCase ''wow wow x'')) + 1)"
    apply (subst scoreEntries64_append [OF builtin_literal])
    unfolding anchored_lower anchored_builtin_score
    by (simp add: anchored_pattern matchesAtEnd_def match_eval literal_rounding)
  moreover have "length (splitWs (toLowerCase ''wow wow x'')) = 3"
    unfolding anchored_lower by (simp add: length_splitWs isSpace_def)
  ultimately show ?thesis
    unfolding scored64_def Let_def
    by (simp add: binary64_sqrt3 thresholds64_def frustrationIndicators_def anchored_lower
          literal_rounding anchored_rounding dmin_def)
qed

lemma diluted_scored:
  "scored64 (builtinDictionary @ [(''x$'', - 1)]) ''wow wow x a''
     = Returns \<lparr> type64 = positive, confidence64 = binary64 0.98 \<rparr>"
proof -
  have "scoreEntries64 (builtinDictionary @ [(''x$'', - 1)]) (toLowerCase ''wow wow x a'') (Finite 0) 0
      = Returns (Finite 3, 0 + (\<Sum>(t, w) \<leftarrow> builtinDictionary. countMatches t (toLowerCase ''wow wow x a'')))"
    apply (subst scoreEntries64_append [OF builtin_literal])
    unfolding anchored_lower anchored_builtin_score
    by (simp add: anchored_pattern matchesAtEnd_def match_eval literal_rounding)
  moreover have "length (splitWs (toLowerCase ''wow wow x a'')) = 4"
    unfolding anchored_lower by (simp add: length_splitWs isSpace_def)
  ultimately show ?thesis
    unfolding scored64_def Let_def
    by (simp add: thresholds64_def frustrationIndicators_def anchored_lower
          literal_rounding anchored_rounding dmin_def)
qed

lemma anchored_filler:
  "neutralFiller (builtinDictionary @ [(''x$'', - 1)]) ''wow wow x'' '' a''"
  unfolding neutralFiller_def anchored_lower map_append builtin_keys indicatorPhrases_def
  by (simp add: match_eval)

text \<open>
  Claim C9 fails on the code. The custom dictionary \<^verbatim>\<open>{'x$': -1}\<close> passes the
  constructor, and the loop compiles its term, unescaped, to the pattern of
  \<^verbatim>\<open>new RegExp('\\bx$\\b|x$', 'gi')\<close>, which matches an \<^verbatim>\<open>x\<close> at the end of the text
  only. The text \<^verbatim>\<open>wow wow x\<close> has the score 1.5 + 1.5 - 1 over three words and is positive with
  confidence 0.9309401076758503. Appending the filler \<^verbatim>\<open> a\<close> adds no occurrence of a
  term or of an indicator phrase and no exclamation mark, but the \<^verbatim>\<open>x\<close> no longer ends
  the text: the score is 3 over four words, and the text is positive with the higher
  confidence 0.98.
\<close>

theorem C9_anchored_term:
  "neutralFiller (dictionary (newSentimentAnalyzer None (Some [(''x$'', - 1)])))
     ''wow wow x'' '' a'' \<and>
   analyzeSentiment64 (newSentimentAnalyzer None (Some [(''x$'', - 1)]))
       (Some (JStr ''wow wow x''))
     = Returns \<lparr> type64 = positive, confidence64 = binary64 0.9309401076758503 \<rparr> \<and>
   analyzeSentiment64 (newSentimentAnalyzer None (Some [(''x$'', - 1)]))
       (Some (JStr (''wow wow x'' @ '' a'')))
     = Returns \<lparr> type64 = positive, confidence64 = binary64 0.98 \<rparr> \<and>
   dless (binary64 0.9309401076758503) (binary64 0.98)"
proof -
  let ?A = "newSentimentAnalyzer None (Some [(''x$'', - 1)])"
  have thr: "confidenceThreshold (config ?A) = 0.65"
    by (simp add: newSentimentAnalyzer_def)
  have 1: "neutralFiller (dictionary ?A) ''wow wow x'' '' a''"
    by (simp only: anchored_dictionary anchored_filler)
  have 2: "analyzeSentiment64 ?A (Some (JStr ''wow wow x''))
      = Returns \<lparr> type64 = positive, confidence64 = binary64 0.9309401076758503 \<rparr>"
    by (simp add: analyzeSentiment64_def anchored_special anchored_dictionary anchored_scored
          thr belowThreshold64_def literal_rounding anchored_rounding)
  have 3: "analyzeSentiment64 ?A (Some (JStr (''wow wow x'' @ '' a'')))
      = Returns \<lparr> type64 = positive, confidence64 = binary64 0.98 \<rparr>"
    using anchored_special(2) [of "dictionary ?A"]
    by (simp add: analyzeSentiment64_def anchored_dictionary diluted_scored
          thr belowThreshold64_def literal_rounding anchored_rounding)
  have 4: "dless (binary64 0.9309401076758503) (binary64 0.98)"
    by (simp add: literal_rounding anchored_rounding)
  from 1 2 3 4 show ?thesis by blast
qed

end
